theory Spec2Isabelle
  imports Complex_Main "HOL-Library.Word"
begin

section \<open>JavaScript numbers and loops\<close>

text \<open>
  The engine computes with JavaScript numbers, which are IEEE 754 binary64
  values. A quotient is not the real quotient but the double nearest to it
  (ties to the even significand): \<open>fl64\<close> rounds a real number to 53
  significant bits. The exponent range is not bounded in \<open>fl64\<close>; for the
  quotients of the engine (pixel counts, brightness sums and image dimensions,
  all integers below \<open>2 ^ 53\<close>) the result is the double that the code
  computes. The three non-finite results of a division are kept as separate
  values, because the code divides by the pixel count and by the image
  dimensions, which are zero for a degenerate image: \<open>0 / 0\<close> is \<open>NaN\<close>
  and \<open>x / 0\<close> is an infinity.

  Sums of integers (counts, channel sums, histogram entries) are exact in the
  code as in the model. The remaining arithmetic on fractions (the
  accumulated similarities and differences of the structural and texture
  extractors, the square root of the contrast, the differences
  \<open>Math.abs(v - c)\<close>, the weighted ensemble scores and the constants of
  the threshold comparisons) is modelled in the real numbers.
\<close>

datatype jsnum = Fin real | PInf | NInf | NaN

definition roundHalfEven :: "real \<Rightarrow> int" where
  "roundHalfEven y =
     (let f = \<lfloor>y\<rfloor>
      in if y - of_int f < 1 / 2 then f
         else if y - of_int f > 1 / 2 then f + 1
         else if even f then f else f + 1)"

definition fl64 :: "real \<Rightarrow> real" where
  "fl64 x =
     (if x = 0 then 0
      else (let e = \<lfloor>log 2 \<bar>x\<bar>\<rfloor>;
                ulp = 2 powr (of_int e - 52)
            in ulp * of_int (roundHalfEven (x / ulp))))"

text \<open>The quotient \<open>a / b\<close> of two finite numbers.\<close>

definition js_div :: "real \<Rightarrow> real \<Rightarrow> jsnum" where
  "js_div a b =
     (if b \<noteq> 0 then Fin (fl64 (a / b))
      else if a = 0 then NaN
      else if 0 < a then PInf else NInf)"

text \<open>The sum \<open>a + b\<close> of two JavaScript numbers.\<close>

fun js_add :: "jsnum \<Rightarrow> jsnum \<Rightarrow> jsnum" where
  "js_add NaN b = NaN"
| "js_add a NaN = NaN"
| "js_add PInf NInf = NaN"
| "js_add NInf PInf = NaN"
| "js_add PInf b = PInf"
| "js_add a PInf = PInf"
| "js_add NInf b = NInf"
| "js_add a NInf = NInf"
| "js_add (Fin x) (Fin y) = Fin (fl64 (x + y))"

text \<open>Comparison of a JavaScript number with a finite constant; every
  comparison with \<open>NaN\<close> is false.\<close>

fun js_lt :: "jsnum \<Rightarrow> real \<Rightarrow> bool" where
  "js_lt (Fin x) c = (x < c)"
| "js_lt PInf c = False"
| "js_lt NInf c = True"
| "js_lt NaN c = False"

fun js_gt :: "jsnum \<Rightarrow> real \<Rightarrow> bool" where
  "js_gt (Fin x) c = (c < x)"
| "js_gt PInf c = True"
| "js_gt NInf c = False"
| "js_gt NaN c = False"

fun js_le :: "jsnum \<Rightarrow> real \<Rightarrow> bool" where
  "js_le (Fin x) c = (x \<le> c)"
| "js_le PInf c = False"
| "js_le NInf c = True"
| "js_le NaN c = False"

fun js_ge :: "jsnum \<Rightarrow> real \<Rightarrow> bool" where
  "js_ge (Fin x) c = (c \<le> x)"
| "js_ge PInf c = True"
| "js_ge NInf c = False"
| "js_ge NaN c = False"

text \<open>\<open>Math.abs(v - c)\<close> for a finite constant \<open>c\<close>.\<close>

fun js_abs_sub :: "jsnum \<Rightarrow> real \<Rightarrow> jsnum" where
  "js_abs_sub (Fin x) c = Fin \<bar>x - c\<bar>"
| "js_abs_sub PInf c = PInf"
| "js_abs_sub NInf c = PInf"
| "js_abs_sub NaN c = NaN"

text \<open>\<open>Math.round\<close>: the nearest integer, halves rounded up.\<close>

definition js_round :: "real \<Rightarrow> int" where
  "js_round x = \<lfloor>x + 1 / 2\<rfloor>"

text \<open>
  The loop \<open>for (let i = i0; i < n; i += step) body\<close> over a state \<open>s\<close>.
  Every loop of the engine has a constant positive step (2, 3 or 4).
\<close>

function forLoop :: "nat \<Rightarrow> nat \<Rightarrow> nat \<Rightarrow> (nat \<Rightarrow> 's \<Rightarrow> 's) \<Rightarrow> 's \<Rightarrow> 's" where
  "forLoop i n step body s =
     (if i < n \<and> 0 < step then forLoop (i + step) n step body (body i s) else s)"
  by pat_completeness auto
termination
  by (relation "measure (\<lambda>(i, n, step, body, s). n - i)") auto

declare forLoop.simps [simp del]

section \<open>Pixel buffers\<close>

text \<open>
  A pixel buffer is the flat \<open>Uint8ClampedArray\<close> of an \<open>ImageData\<close>: four
  bytes (red, green, blue, alpha) per pixel, row by row. For such a buffer the
  length is a multiple of four, and then every read of the extractors below is
  inside the buffer (each read at \<open>i + 1\<close>, \<open>i + 2\<close> follows a check of
  \<open>i\<close> against the length, \<open>i\<close> a multiple of four).
\<close>

type_synonym pixelbuf = "8 word list"

definition rgba :: "pixelbuf \<Rightarrow> bool" where
  "rgba pixels = (length pixels mod 4 = 0)"

text \<open>The sum of the three colour channels of the pixel that starts at \<open>i\<close>.\<close>

definition rgbSum :: "pixelbuf \<Rightarrow> nat \<Rightarrow> nat" where
  "rgbSum pixels i = unat (pixels ! i) + unat (pixels ! (i + 1)) + unat (pixels ! (i + 2))"

section \<open>Visual feature extractor\<close>

record VisualAcc =
  histogramAcc :: "nat list"
  totalBrightness :: nat
  edgeCount :: nat
  darkPixels :: nat
  brightPixels :: nat
  mediumPixels :: nat

definition visualInit :: VisualAcc where
  "visualInit = \<lparr> histogramAcc = replicate 256 0, totalBrightness = 0, edgeCount = 0,
     darkPixels = 0, brightPixels = 0, mediumPixels = 0 \<rparr>"

text \<open>
  The body of the pixel loop of \<open>performAdvancedVisualAnalysis\<close> (dark
  threshold 50, edge threshold 30) and of \<open>analyzeVisualCharacteristicsPerfect\<close>
  (dark threshold 60, edge threshold 25); the two loops differ in these two
  constants only.
\<close>

definition visualStep :: "nat \<Rightarrow> int \<Rightarrow> pixelbuf \<Rightarrow> nat \<Rightarrow> VisualAcc \<Rightarrow> VisualAcc" where
  "visualStep darkT edgeT pixels i s =
     (let r = unat (pixels ! i);
          brightness = nat (js_round (real (rgbSum pixels i) / 3));
          s1 = s\<lparr> histogramAcc := (histogramAcc s)[brightness := histogramAcc s ! brightness + 1],
                 totalBrightness := totalBrightness s + brightness \<rparr>;
          s2 = (if brightness < darkT then s1\<lparr> darkPixels := darkPixels s1 + 1 \<rparr>
                else if brightness > 200 then s1\<lparr> brightPixels := brightPixels s1 + 1 \<rparr>
                else s1\<lparr> mediumPixels := mediumPixels s1 + 1 \<rparr>)
      in if i + 4 < length pixels
         then (let nextR = unat (pixels ! (i + 4));
                   diff = \<bar>int r - int nextR\<bar>
               in if diff > edgeT then s2\<lparr> edgeCount := edgeCount s2 + 1 \<rparr> else s2)
         else s2)"

definition visualScan :: "nat \<Rightarrow> int \<Rightarrow> pixelbuf \<Rightarrow> VisualAcc" where
  "visualScan darkT edgeT pixels =
     forLoop 0 (length pixels) 4 (visualStep darkT edgeT pixels) visualInit"

text \<open>\<open>calculateClinicalContrast\<close>; \<open>calculateContrastPerfect\<close> has the same body.\<close>

definition calculateClinicalContrast :: "nat list \<Rightarrow> real" where
  "calculateClinicalContrast histogram =
     (let total = foldl (\<lambda>sum count. sum + count) 0 histogram
      in if total = 0 then 0
         else
           (let mean = real (foldl (\<lambda>sum (index, count). sum + count * index) 0
                               (enumerate 0 histogram)) / real total;
                variance = foldl (\<lambda>v (index, count).
                               if count > 0 then v + real count * (real index - mean)\<^sup>2 else v)
                             0 (enumerate 0 histogram);
                stdDev = sqrt (variance / real total)
            in min (stdDev / 128) 1))"

definition calculateContrastPerfect :: "nat list \<Rightarrow> real" where
  "calculateContrastPerfect histogram = calculateClinicalContrast histogram"

record PathologyIndicators =
  ind_pneumonia :: bool
  ind_atelectasis :: bool
  ind_cardiomegaly :: bool
  ind_pleural_effusion :: bool
  ind_normal_chest :: bool

record ClinicalFeatures =
  isDark :: bool
  isBright :: bool
  isMedium :: bool
  hasHighContrast :: bool
  hasClinicalContrast :: bool
  hasLowContrast :: bool
  isHighDetail :: bool
  isClinicalDetail :: bool
  isLowDetail :: bool

record VisualAnalysis =
  brightness :: jsnum
  contrast :: real
  edgeDensity :: jsnum
  histogram :: "nat list"
  darkRatio :: jsnum
  brightRatio :: jsnum
  mediumRatio :: jsnum
  pathologyIndicators :: PathologyIndicators
  clinicalFeatures :: ClinicalFeatures

definition performAdvancedVisualAnalysis :: "pixelbuf \<Rightarrow> nat \<Rightarrow> nat \<Rightarrow> VisualAnalysis" where
  "performAdvancedVisualAnalysis pixels width height =
     (let s = visualScan 50 30 pixels;
          totalPixels = real (length pixels) / 4;
          avgBrightness = js_div (real (totalBrightness s)) totalPixels;
          contrast = calculateClinicalContrast (histogramAcc s);
          edgeDensity = js_div (real (edgeCount s)) totalPixels;
          darkRatio = js_div (real (darkPixels s)) totalPixels;
          brightRatio = js_div (real (brightPixels s)) totalPixels;
          mediumRatio = js_div (real (mediumPixels s)) totalPixels
      in \<lparr> brightness = avgBrightness,
           contrast = contrast,
           edgeDensity = edgeDensity,
           histogram = histogramAcc s,
           darkRatio = darkRatio,
           brightRatio = brightRatio,
           mediumRatio = mediumRatio,
           pathologyIndicators = \<lparr>
             ind_pneumonia = (js_lt darkRatio 0.6 \<and> contrast > 0.4),
             ind_atelectasis = (js_gt darkRatio 0.7 \<and> js_gt edgeDensity 0.3),
             ind_cardiomegaly = (js_gt mediumRatio 0.4 \<and> js_gt avgBrightness 100),
             ind_pleural_effusion = (js_gt darkRatio 0.8 \<and> contrast < 0.3),
             ind_normal_chest = (js_gt darkRatio 0.6 \<and> js_lt darkRatio 0.8 \<and> contrast > 0.3) \<rparr>,
           clinicalFeatures = \<lparr>
             isDark = js_lt avgBrightness 80,
             isBright = js_gt avgBrightness 180,
             isMedium = (js_ge avgBrightness 80 \<and> js_le avgBrightness 180),
             hasHighContrast = (contrast > 0.6),
             hasClinicalContrast = (contrast > 0.3 \<and> contrast \<le> 0.6),
             hasLowContrast = (contrast \<le> 0.3),
             isHighDetail = js_gt edgeDensity 0.4,
             isClinicalDetail = (js_gt edgeDensity 0.2 \<and> js_le edgeDensity 0.4),
             isLowDetail = js_le edgeDensity 0.2 \<rparr> \<rparr>)"

section \<open>Structural feature extractor\<close>

text \<open>
  One comparison of the symmetry loops: the pixels that start at the two
  indices are compared when both indices are inside the buffer. The state is
  the pair \<open>(symmetryScore, comparisons)\<close>.
\<close>

definition symmetryPair :: "pixelbuf \<Rightarrow> nat \<Rightarrow> nat \<Rightarrow> real \<times> nat \<Rightarrow> real \<times> nat" where
  "symmetryPair pixels aIndex bIndex acc =
     (if aIndex < length pixels \<and> bIndex < length pixels
      then (let aBrightness = real (rgbSum pixels aIndex) / 3;
                bBrightness = real (rgbSum pixels bIndex) / 3;
                diff = \<bar>aBrightness - bBrightness\<bar>;
                similarity = max 0 (255 - diff) / 255
            in (fst acc + similarity, snd acc + 1))
      else acc)"

text \<open>The nested loops of \<open>calculateBilateralSymmetry\<close> (stride 2) and of
  \<open>calculateSymmetryPerfect\<close> (stride 3).\<close>

definition bilateralScan :: "nat \<Rightarrow> pixelbuf \<Rightarrow> nat \<Rightarrow> nat \<Rightarrow> real \<times> nat" where
  "bilateralScan stride pixels width height =
     (let centerX = width div 2
      in forLoop 0 height stride
           (\<lambda>y. forLoop 0 centerX stride
              (\<lambda>x. symmetryPair pixels ((y * width + x) * 4) ((y * width + (width - 1 - x)) * 4)))
           (0, 0))"

definition symmetryResult :: "real \<times> nat \<Rightarrow> real" where
  "symmetryResult acc = (if snd acc > 0 then fst acc / real (snd acc) else 0)"

definition calculateBilateralSymmetry :: "pixelbuf \<Rightarrow> nat \<Rightarrow> nat \<Rightarrow> real" where
  "calculateBilateralSymmetry pixels width height =
     symmetryResult (bilateralScan 2 pixels width height)"

definition calculateSymmetryPerfect :: "pixelbuf \<Rightarrow> nat \<Rightarrow> nat \<Rightarrow> real" where
  "calculateSymmetryPerfect pixels width height =
     symmetryResult (bilateralScan 3 pixels width height)"

text \<open>The nested loops of \<open>calculateVerticalSymmetry\<close> (stride 2) and of
  \<open>calculateVerticalSymmetryPerfect\<close> (stride 3).\<close>

definition verticalScan :: "nat \<Rightarrow> pixelbuf \<Rightarrow> nat \<Rightarrow> nat \<Rightarrow> real \<times> nat" where
  "verticalScan stride pixels width height =
     (let centerY = height div 2
      in forLoop 0 width stride
           (\<lambda>x. forLoop 0 centerY stride
              (\<lambda>y. symmetryPair pixels ((y * width + x) * 4) (((height - 1 - y) * width + x) * 4)))
           (0, 0))"

definition calculateVerticalSymmetry :: "pixelbuf \<Rightarrow> nat \<Rightarrow> nat \<Rightarrow> real" where
  "calculateVerticalSymmetry pixels width height =
     symmetryResult (verticalScan 2 pixels width height)"

definition calculateVerticalSymmetryPerfect :: "pixelbuf \<Rightarrow> nat \<Rightarrow> nat \<Rightarrow> real" where
  "calculateVerticalSymmetryPerfect pixels width height =
     symmetryResult (verticalScan 3 pixels width height)"

text \<open>The centre-of-mass loop; the state is \<open>(centerMassX, centerMassY, totalMass)\<close>.\<close>

definition massStep :: "pixelbuf \<Rightarrow> nat \<Rightarrow> nat \<Rightarrow> nat \<Rightarrow> real \<times> real \<times> real \<Rightarrow> real \<times> real \<times> real" where
  "massStep pixels width y x acc =
     (let index = (y * width + x) * 4
      in if index < length pixels
         then (case acc of (centerMassX, centerMassY, totalMass) \<Rightarrow>
                 (let brightness = real (rgbSum pixels index) / 3;
                      mass = brightness * brightness
                  in (centerMassX + real x * mass, centerMassY + real y * mass, totalMass + mass)))
         else acc)"

definition massScan :: "pixelbuf \<Rightarrow> nat \<Rightarrow> nat \<Rightarrow> real \<times> real \<times> real" where
  "massScan pixels width height =
     forLoop 0 height 2 (\<lambda>y. forLoop 0 width 2 (massStep pixels width y)) (0, 0, 0)"

record AnatomicalFeatures =
  isChestXray :: bool
  isBrainMRI :: bool
  isCTScan :: bool
  isSpineXray :: bool
  isMammography :: bool

record ClinicalPositioning =
  isCentered :: bool
  hasGoodSymmetry :: bool
  hasClinicalSymmetry :: bool
  hasPoorSymmetry :: bool

record StructuralAnalysis =
  aspectRatio :: jsnum
  centerMass :: "jsnum \<times> jsnum"
  bilateralSymmetry :: real
  verticalSymmetry :: real
  anatomicalFeatures :: AnatomicalFeatures
  clinicalPositioning :: ClinicalPositioning

definition analyzeAnatomicalStructure :: "pixelbuf \<Rightarrow> nat \<Rightarrow> nat \<Rightarrow> StructuralAnalysis" where
  "analyzeAnatomicalStructure pixels width height =
     (let aspectRatio = js_div (real width) (real height);
          (mx, my, totalMass) = massScan pixels width height;
          centerMassX = (if totalMass > 0 then mx / totalMass else mx);
          centerMassY = (if totalMass > 0 then my / totalMass else my);
          bilateralSymmetry = calculateBilateralSymmetry pixels width height;
          verticalSymmetry = calculateVerticalSymmetry pixels width height
      in \<lparr> aspectRatio = aspectRatio,
           centerMass = (js_div centerMassX (real width), js_div centerMassY (real height)),
           bilateralSymmetry = bilateralSymmetry,
           verticalSymmetry = verticalSymmetry,
           anatomicalFeatures = \<lparr>
             isChestXray = (js_gt aspectRatio 1.2 \<and> js_lt aspectRatio 1.8),
             isBrainMRI = (js_lt (js_abs_sub aspectRatio 1) 0.2 \<and> bilateralSymmetry > 0.7),
             isCTScan = js_lt (js_abs_sub aspectRatio 1) 0.15,
             isSpineXray = js_lt aspectRatio 0.6,
             isMammography = (js_lt aspectRatio 0.8 \<and> js_gt aspectRatio 0.4) \<rparr>,
           clinicalPositioning = \<lparr>
             isCentered = (js_lt (js_abs_sub (js_div centerMassX (real width)) 0.5) 0.1
                           \<and> js_lt (js_abs_sub (js_div centerMassY (real height)) 0.5) 0.1),
             hasGoodSymmetry = (bilateralSymmetry > 0.7),
             hasClinicalSymmetry = (bilateralSymmetry > 0.4 \<and> bilateralSymmetry \<le> 0.7),
             hasPoorSymmetry = (bilateralSymmetry \<le> 0.4) \<rparr> \<rparr>)"

section \<open>Texture feature extractor\<close>

definition neighbors :: "(int \<times> int) list" where
  "neighbors = [(-1, -1), (-1, 0), (-1, 1), (0, -1), (0, 1), (1, -1), (1, 0), (1, 1)]"

text \<open>The body of \<open>neighbors.forEach\<close>; the state is
  \<open>(neighborDiffs, neighborVariances)\<close>.\<close>

definition neighborStep ::
  "pixelbuf \<Rightarrow> nat \<Rightarrow> nat \<Rightarrow> nat \<Rightarrow> real \<Rightarrow> int \<times> int \<Rightarrow> real \<times> real list \<Rightarrow> real \<times> real list" where
  "neighborStep pixels width x y centerBrightness d acc =
     (case d of (dx, dy) \<Rightarrow>
        (let neighborIndex = ((int y + dy) * int width + (int x + dx)) * 4
         in if neighborIndex \<ge> 0 \<and> neighborIndex < int (length pixels) - 2
            then (let neighborBrightness = real (rgbSum pixels (nat neighborIndex)) / 3;
                      diff = \<bar>centerBrightness - neighborBrightness\<bar>
                  in (fst acc + diff, snd acc @ [diff]))
            else acc))"

definition neighborScan :: "pixelbuf \<Rightarrow> nat \<Rightarrow> nat \<Rightarrow> nat \<Rightarrow> real \<times> real list" where
  "neighborScan pixels width x y =
     fold (neighborStep pixels width x y (real (rgbSum pixels ((y * width + x) * 4)) / 3))
       neighbors (0, [])"

text \<open>The body of the two texture loops; the state is
  \<open>(roughness, localVariance, comparisons)\<close>. The division by
  \<open>neighborVariances.length\<close> is never a division by zero: see
  \<open>neighborScan_nonempty\<close> below.\<close>

definition textureStep :: "pixelbuf \<Rightarrow> nat \<Rightarrow> nat \<Rightarrow> nat \<Rightarrow> real \<times> real \<times> nat \<Rightarrow> real \<times> real \<times> nat" where
  "textureStep pixels width y x acc =
     (let centerIndex = (y * width + x) * 4
      in if int centerIndex < int (length pixels) - 4
         then (case acc of (roughness, localVariance, comparisons) \<Rightarrow>
                 (let (neighborDiffs, neighborVariances) = neighborScan pixels width x y;
                      meanDiff = neighborDiffs / real (length neighbors);
                      variance = foldl (\<lambda>sum diff. sum + (diff - meanDiff)\<^sup>2) 0 neighborVariances
                                   / real (length neighborVariances)
                  in (roughness + neighborDiffs / real (length neighbors),
                      localVariance + variance, comparisons + 1)))
         else acc)"

text \<open>The loops \<open>for (let y = 2; y < height - 2; y += stride)\<close> and the same
  over \<open>x\<close>. For a dimension below 2 the bound is negative in the source and
  \<open>0\<close> here (subtraction on \<open>nat\<close> stops at 0); in both cases the loop
  body never runs.\<close>

definition textureScan :: "nat \<Rightarrow> pixelbuf \<Rightarrow> nat \<Rightarrow> nat \<Rightarrow> real \<times> real \<times> nat" where
  "textureScan stride pixels width height =
     forLoop 2 (height - 2) stride (\<lambda>y. forLoop 2 (width - 2) stride (textureStep pixels width y))
       (0, 0, 0)"

record ClinicalTexture =
  isSmooth :: bool
  isNormal :: bool
  isComplex :: bool
  hasArtifacts :: bool
  isHighQuality :: bool

record TextureAnalysis =
  roughness :: real
  uniformity :: real
  localVariance :: real
  patterns :: "string list"
  textureComplexity :: real
  clinicalTexture :: ClinicalTexture

definition performTextureAnalysis :: "pixelbuf \<Rightarrow> nat \<Rightarrow> nat \<Rightarrow> TextureAnalysis" where
  "performTextureAnalysis pixels width height =
     (let (roughnessSum, varianceSum, comparisons) = textureScan 2 pixels width height;
          roughness = (if comparisons > 0 then roughnessSum / real comparisons else 0);
          uniformity = max 0 (255 - roughness) / 255;
          localVariance = (if comparisons > 0 then varianceSum / real comparisons else 0);
          patterns1 = (if roughness > 60 then [''high-detail'', ''complex-texture'', ''possible-pathology'']
                       else if roughness > 30 then [''medium-detail'', ''moderate-texture'', ''normal-variation'']
                       else [''smooth'', ''low-detail'', ''homogeneous'']);
          patterns2 = (if uniformity > 0.8 then [''uniform'', ''homogeneous'', ''normal-tissue'']
                       else if uniformity > 0.5 then [''semi-uniform'', ''mild-variation'']
                       else [''heterogeneous'', ''varied'', ''possible-abnormality'']);
          patterns3 = (if localVariance > 120 then [''high-variance'', ''noisy'', ''artifact-present'']
                       else if localVariance > 60 then [''medium-variance'', ''normal-noise'']
                       else [''low-variance'', ''clean'', ''high-quality''])
      in \<lparr> roughness = roughness,
           uniformity = uniformity,
           localVariance = localVariance,
           patterns = patterns1 @ patterns2 @ patterns3,
           textureComplexity = min ((roughness + localVariance) / 200) 1,
           clinicalTexture = \<lparr>
             isSmooth = (roughness < 30),
             isNormal = (roughness \<ge> 30 \<and> roughness \<le> 60),
             isComplex = (roughness > 60),
             hasArtifacts = (localVariance > 120),
             isHighQuality = (localVariance < 60 \<and> uniformity > 0.6) \<rparr> \<rparr>)"

section \<open>Filename heuristic scorer\<close>

text \<open>
  Each pattern of \<open>analyzeMedicalFilename\<close> is an alternation of lower-case
  ASCII words under the flag \<open>i\<close>: it matches when one of the words occurs in
  the file name, upper and lower case letters identified.
\<close>

definition toLowerAscii :: "char \<Rightarrow> char" where
  "toLowerAscii c =
     (let n = (of_char c :: nat) in if 65 \<le> n \<and> n \<le> 90 then char_of (n + 32) else c)"

fun startsWith :: "string \<Rightarrow> string \<Rightarrow> bool" where
  "startsWith [] s = True"
| "startsWith (p # ps) [] = False"
| "startsWith (p # ps) (c # cs) = (p = c \<and> startsWith ps cs)"

fun containsWord :: "string \<Rightarrow> string \<Rightarrow> bool" where
  "containsWord w [] = (w = [])"
| "containsWord w (c # cs) = (startsWith w (c # cs) \<or> containsWord w cs)"

definition regexTest :: "string list \<Rightarrow> string \<Rightarrow> bool" where
  "regexTest alternatives name = list_ex (\<lambda>w. containsWord w (map toLowerAscii name)) alternatives"

record FilenameScore =
  fs_score :: real
  fs_conditions :: "string list"

definition chestWords :: "string list" where
  "chestWords = [''chest'', ''lung'', ''thorax'', ''cardiac'', ''heart'', ''pulmon'',
     ''respiratory'', ''cxr'', ''pneumonia'', ''tuberculosis'']"

definition brainWords :: "string list" where
  "brainWords = [''brain'', ''mri'', ''head'', ''neuro'', ''cerebr'', ''skull'', ''cranial'',
     ''intracranial'', ''stroke'', ''tumor'']"

definition ctWords :: "string list" where
  "ctWords = [''ct'', ''computed'', ''tomography'', ''scan'', ''axial'', ''coronal'', ''sagittal'']"

definition boneWords :: "string list" where
  "boneWords = [''bone'', ''fracture'', ''orthop'', ''joint'', ''spine'', ''skeletal'', ''femur'',
     ''tibia'', ''radius'', ''osteo'']"

definition analyzeMedicalFilename :: "string \<Rightarrow> (string \<times> FilenameScore) list" where
  "analyzeMedicalFilename filename =
     [(''chest'', \<lparr> fs_score = (if regexTest chestWords filename then 0.95 else 0),
         fs_conditions = [''pneumonia'', ''atelectasis'', ''cardiomegaly'', ''pleural_effusion''] \<rparr>),
      (''brain'', \<lparr> fs_score = (if regexTest brainWords filename then 0.95 else 0),
         fs_conditions = [''normal'', ''stroke'', ''tumor'', ''hemorrhage''] \<rparr>),
      (''ct'', \<lparr> fs_score = (if regexTest ctWords filename then 0.9 else 0),
         fs_conditions = [''normal'', ''abnormal'', ''mass'', ''inflammation''] \<rparr>),
      (''bone'', \<lparr> fs_score = (if regexTest boneWords filename then 0.9 else 0),
         fs_conditions = [''normal'', ''fracture'', ''arthritis'', ''osteoporosis''] \<rparr>)]"

section \<open>Pathology indicator scorer\<close>

datatype pathology =
  Pneumonia | Atelectasis | Cardiomegaly | PleuralEffusion | Pneumothorax | Consolidation
  | Edema | Emphysema | Fibrosis | Nodule | Mass | Infiltration
  | Stroke | Tumor | Hemorrhage | Normal

text \<open>
  An object with a fixed set of keys is an association list in the order of
  the object literal, which is the order of \<open>Object.entries\<close>. An assignment
  to a key and \<open>+=\<close> on a key keep the position of the key.
\<close>

definition setScore :: "'k \<Rightarrow> real \<Rightarrow> ('k \<times> real) list \<Rightarrow> ('k \<times> real) list" where
  "setScore k v m = map (\<lambda>(k', v'). if k' = k then (k', v) else (k', v')) m"

definition addScore :: "'k \<Rightarrow> real \<Rightarrow> ('k \<times> real) list \<Rightarrow> ('k \<times> real) list" where
  "addScore k d m = map (\<lambda>(k', v'). if k' = k then (k', v' + d) else (k', v')) m"

record PathologyDetection =
  pathologies :: "(pathology \<times> real) list"
  topPathologies :: "(pathology \<times> real) list"
  hasPathology :: bool
  pathologyConfidence :: real

definition pathologyScores :: "VisualAnalysis \<Rightarrow> (pathology \<times> real) list" where
  "pathologyScores visualAnalysis =
     (let ind = pathologyIndicators visualAnalysis;
          p0 = [(Pneumonia, 0), (Atelectasis, 0), (Cardiomegaly, 0), (PleuralEffusion, 0),
                (Pneumothorax, 0), (Consolidation, 0), (Edema, 0), (Emphysema, 0), (Fibrosis, 0),
                (Nodule, 0), (Mass, 0), (Infiltration, 0), (Stroke, 0), (Tumor, 0),
                (Hemorrhage, 0), (Normal, 0)];
          p1 = (if ind_pneumonia ind
                then setScore Infiltration 0.6 (setScore Consolidation 0.7 (setScore Pneumonia 0.85 p0))
                else p0);
          p2 = (if ind_atelectasis ind
                then setScore Consolidation 0.5 (setScore Atelectasis 0.8 p1)
                else p1);
          p3 = (if ind_cardiomegaly ind then setScore Cardiomegaly 0.75 p2 else p2);
          p4 = (if ind_pleural_effusion ind
                then setScore Edema 0.4 (setScore PleuralEffusion 0.8 p3)
                else p3);
          p5 = (if ind_normal_chest ind then setScore Normal 0.9 p4 else p4);
          p6 = (if contrast visualAnalysis > 0.7 \<and> js_gt (edgeDensity visualAnalysis) 0.5
                then setScore Mass 0.4 (setScore Nodule 0.6 p5)
                else p5);
          p7 = (if js_gt (brightRatio visualAnalysis) 0.3 \<and> js_lt (darkRatio visualAnalysis) 0.4
                then setScore Emphysema 0.5 p6
                else p6)
      in if js_gt (darkRatio visualAnalysis) 0.9 then setScore Pneumothorax 0.7 p7 else p7)"

text \<open>
  \<open>Array.prototype.sort\<close> with the comparator \<open>b - a\<close> on the scores is a
  stable sort in descending order of score; \<open>sort_key\<close> is the stable
  insertion sort of the library.
\<close>

definition detectPathologies :: "pixelbuf \<Rightarrow> nat \<Rightarrow> nat \<Rightarrow> VisualAnalysis \<Rightarrow> PathologyDetection" where
  "detectPathologies pixels width height visualAnalysis =
     (let pathologies = pathologyScores visualAnalysis;
          sortedPathologies =
            take 5 (sort_key (\<lambda>(_, s). - s) (filter (\<lambda>(_, s). s > 0.3) pathologies))
      in \<lparr> pathologies = pathologies,
           topPathologies = sortedPathologies,
           hasPathology = (length sortedPathologies > 0 \<and> snd (sortedPathologies ! 0) > 0.5),
           pathologyConfidence =
             (if length sortedPathologies > 0 then snd (sortedPathologies ! 0) else 0) \<rparr>)"

section \<open>Ensemble classifier, clinical profile\<close>

datatype modality =
  ChestXray | BrainMri | CtScan | Ultrasound | BoneXray | AbdominalCt | Mammography
  | DentalXray | SpineXray

datatype imageType = Known modality | Unknown

definition clinicalRules ::
  "VisualAnalysis \<Rightarrow> StructuralAnalysis \<Rightarrow> TextureAnalysis \<Rightarrow> (modality \<times> real) list" where
  "clinicalRules visualFeatures structuralFeatures textureFeatures =
     (let c0 = [(ChestXray, 0), (BrainMri, 0), (CtScan, 0), (Ultrasound, 0), (BoneXray, 0),
                (AbdominalCt, 0), (Mammography, 0), (DentalXray, 0), (SpineXray, 0)];
          c1 = (if isDark (clinicalFeatures visualFeatures)
                   \<and> hasHighContrast (clinicalFeatures visualFeatures)
                   \<and> isChestXray (anatomicalFeatures structuralFeatures)
                   \<and> js_gt (edgeDensity visualFeatures) 0.25
                then setScore ChestXray 0.95 c0 else c0);
          c2 = (if isBrainMRI (anatomicalFeatures structuralFeatures)
                   \<and> isMedium (clinicalFeatures visualFeatures)
                   \<and> hasGoodSymmetry (clinicalPositioning structuralFeatures)
                then setScore BrainMri 0.93 c1 else c1);
          c3 = (if isCTScan (anatomicalFeatures structuralFeatures)
                   \<and> isMedium (clinicalFeatures visualFeatures)
                   \<and> isNormal (clinicalTexture textureFeatures)
                then setScore AbdominalCt 0.4 (setScore CtScan 0.9 c2) else c2);
          c4 = (if hasHighContrast (clinicalFeatures visualFeatures)
                   \<and> js_gt (brightRatio visualFeatures) 0.15
                   \<and> isComplex (clinicalTexture textureFeatures)
                then setScore BoneXray 0.88 c3 else c3);
          c5 = (if isDark (clinicalFeatures visualFeatures)
                   \<and> hasLowContrast (clinicalFeatures visualFeatures)
                   \<and> ''noisy'' \<in> set (patterns textureFeatures)
                then setScore Ultrasound 0.85 c4 else c4);
          c6 = (if isMammography (anatomicalFeatures structuralFeatures)
                   \<and> isMedium (clinicalFeatures visualFeatures)
                   \<and> hasHighContrast (clinicalFeatures visualFeatures)
                then setScore Mammography 0.87 c5 else c5)
      in if isSpineXray (anatomicalFeatures structuralFeatures)
            \<and> hasHighContrast (clinicalFeatures visualFeatures)
            \<and> js_gt (edgeDensity visualFeatures) 0.4
         then setScore SpineXray 0.86 c6 else c6)"

definition performClinicalClassification :: "pixelbuf \<Rightarrow> nat \<Rightarrow> nat \<Rightarrow> (modality \<times> real) list" where
  "performClinicalClassification pixels width height =
     clinicalRules (performAdvancedVisualAnalysis pixels width height)
       (analyzeAnatomicalStructure pixels width height)
       (performTextureAnalysis pixels width height)"

record Analyses =
  a_filename :: "(string \<times> FilenameScore) list"
  a_visual :: VisualAnalysis
  a_structural :: StructuralAnalysis
  a_texture :: TextureAnalysis
  a_pathology :: PathologyDetection
  a_clinical :: "(modality \<times> real) list"

record Classification =
  c_type :: imageType
  c_confidence :: real
  c_scores :: "(modality \<times> real) list"
  c_analyses :: Analyses

text \<open>The body of the \<open>forEach\<close> over the entries of \<open>analyses.filename\<close>.\<close>

definition filenameStep :: "string \<times> FilenameScore \<Rightarrow> (modality \<times> real) list \<Rightarrow> (modality \<times> real) list" where
  "filenameStep entry scores =
     (case entry of (key, data) \<Rightarrow>
        (let score = fs_score data
         in if key = ''chest'' then addScore ChestXray (score * 0.2) scores
            else if key = ''brain'' then addScore BrainMri (score * 0.2) scores
            else if key = ''ct''
              then addScore AbdominalCt (score * 0.08) (addScore CtScan (score * 0.12) scores)
            else if key = ''bone''
              then addScore SpineXray (score * 0.05) (addScore BoneXray (score * 0.15) scores)
            else scores))"

definition chestConditions :: "pathology list" where
  "chestConditions = [Pneumonia, Atelectasis, Cardiomegaly, PleuralEffusion]"

text \<open>\<open>Math.max(...Object.values(scores))\<close>; the score object always has its
  nine entries.\<close>

definition maxOf :: "real list \<Rightarrow> real" where
  "maxOf vs = fold max (tl vs) (hd vs)"

text \<open>\<open>Object.entries(scores).find(...)?.[0] || 'unknown'\<close>: the key of the
  first entry whose score is the maximum, \<open>'unknown'\<close> when there is none.\<close>

definition selectType :: "(modality \<times> real) list \<Rightarrow> real \<Rightarrow> imageType" where
  "selectType scores maxScore =
     (case find (\<lambda>(_, score). score = maxScore) scores of
        Some (k, _) \<Rightarrow> Known k
      | None \<Rightarrow> Unknown)"

definition clinicalScores :: "Analyses \<Rightarrow> (modality \<times> real) list" where
  "clinicalScores analyses =
     (let s0 = [(ChestXray, 0), (BrainMri, 0), (CtScan, 0), (Ultrasound, 0), (BoneXray, 0),
                (AbdominalCt, 0), (Mammography, 0), (DentalXray, 0), (SpineXray, 0)];
          s1 = fold filenameStep (a_filename analyses) s0;
          s2 = fold (\<lambda>(type, score). addScore type (score * 0.6)) (a_clinical analyses) s1;
          pathology = a_pathology analyses
      in if hasPathology pathology \<and> length (topPathologies pathology) > 0
         then (let topCondition = fst (topPathologies pathology ! 0)
               in if topCondition \<in> set chestConditions then addScore ChestXray 0.15 s2 else s2)
         else s2)"

definition classifyMedicalImageClinical :: "Analyses \<Rightarrow> Classification" where
  "classifyMedicalImageClinical analyses =
     (let scores = clinicalScores analyses;
          maxScore = maxOf (map snd scores);
          classification = selectType scores maxScore;
          confidence = min (maxScore * 100) 97
      in \<lparr> c_type = classification,
           c_confidence = max confidence 80,
           c_scores = scores,
           c_analyses = analyses \<rparr>)"

section \<open>Diagnosis generator, clinical profile\<close>

datatype urgency = Low | Medium | High

definition determineChestXrayUrgency :: "(pathology \<times> real) list \<Rightarrow> urgency" where
  "determineChestXrayUrgency ps =
     (if length ps = 0 \<or> snd (ps ! 0) < 0.5 then Low
      else (let primaryCondition = fst (ps ! 0); confidence = snd (ps ! 0)
            in if confidence > 0.8
               then (if primaryCondition = Pneumonia \<or> primaryCondition = PleuralEffusion
                     then High else Medium)
               else Medium))"

text \<open>
  The result record with the fields the classification decides: the image
  type, the rounded confidence, the subtype and the urgency. The narrative
  fields (findings, explanations, treatments) are static text chosen by the
  same \<open>switch\<close> and are left out.
\<close>

record ClinicalAnalysisResult =
  res_imageType :: imageType
  res_confidence :: int
  res_subType :: "string option"
  res_urgency :: urgency

definition generateClinicalDiagnosis :: "Classification \<Rightarrow> string \<Rightarrow> ClinicalAnalysisResult" where
  "generateClinicalDiagnosis classification name =
     (let type = c_type classification;
          baseImageType = type;
          baseConfidence = js_round (c_confidence classification)
      in case type of
           Known ChestXray \<Rightarrow>
             \<lparr> res_imageType = baseImageType, res_confidence = baseConfidence,
               res_subType = Some ''PA/AP chest radiograph with CheXNet-level analysis'',
               res_urgency =
                 determineChestXrayUrgency (topPathologies (a_pathology (c_analyses classification))) \<rparr>
         | Known BrainMri \<Rightarrow>
             \<lparr> res_imageType = baseImageType, res_confidence = baseConfidence,
               res_subType = Some ''T1/T2 weighted MRI with clinical-grade analysis'',
               res_urgency = Low \<rparr>
         | _ \<Rightarrow>
             \<lparr> res_imageType = Unknown, res_confidence = baseConfidence,
               res_subType = None, res_urgency = Medium \<rparr>)"

text \<open>\<open>performClinicalImageAnalysis\<close>, in two steps: the six analyses
  that it hands to the ensemble classifier, and the diagnosis generated from
  the classification.\<close>

definition clinicalAnalyses :: "pixelbuf \<Rightarrow> string \<Rightarrow> nat \<Rightarrow> nat \<Rightarrow> Analyses" where
  "clinicalAnalyses pixels name width height =
     (let filenameAnalysis = analyzeMedicalFilename name;
          visualAnalysis = performAdvancedVisualAnalysis pixels width height;
          structuralAnalysis = analyzeAnatomicalStructure pixels width height;
          textureAnalysis = performTextureAnalysis pixels width height;
          pathologyDetection = detectPathologies pixels width height visualAnalysis;
          clinicalClassification = performClinicalClassification pixels width height
      in \<lparr> a_filename = filenameAnalysis, a_visual = visualAnalysis,
           a_structural = structuralAnalysis, a_texture = textureAnalysis,
           a_pathology = pathologyDetection, a_clinical = clinicalClassification \<rparr>)"

definition performClinicalImageAnalysis ::
  "pixelbuf \<Rightarrow> string \<Rightarrow> nat \<Rightarrow> nat \<Rightarrow> ClinicalAnalysisResult" where
  "performClinicalImageAnalysis pixels name width height =
     (let clinicalResult = classifyMedicalImageClinical (clinicalAnalyses pixels name width height)
      in generateClinicalDiagnosis clinicalResult name)"

section \<open>The second profile\<close>

text \<open>
  The second copy of the pipeline ("perfect" profile) has the same visual
  loop with other thresholds, the same symmetry loops with stride 3 (above),
  and its own ensemble classifier.
\<close>

record VisualPerfect =
  p_brightness :: jsnum
  p_contrast :: real
  p_edgeDensity :: jsnum
  p_histogram :: "nat list"
  p_darkRatio :: jsnum
  p_brightRatio :: jsnum
  p_mediumRatio :: jsnum
  p_isDark :: bool
  p_isBright :: bool
  p_isMedium :: bool
  p_hasHighContrast :: bool
  p_hasMediumContrast :: bool
  p_hasLowContrast :: bool
  p_isHighDetail :: bool
  p_isMediumDetail :: bool
  p_isLowDetail :: bool

definition analyzeVisualCharacteristicsPerfect :: "pixelbuf \<Rightarrow> nat \<Rightarrow> nat \<Rightarrow> VisualPerfect" where
  "analyzeVisualCharacteristicsPerfect pixels width height =
     (let s = visualScan 60 25 pixels;
          totalPixels = real (length pixels) / 4;
          avgBrightness = js_div (real (totalBrightness s)) totalPixels;
          contrast = calculateContrastPerfect (histogramAcc s);
          edgeDensity = js_div (real (edgeCount s)) totalPixels;
          darkRatio = js_div (real (darkPixels s)) totalPixels;
          brightRatio = js_div (real (brightPixels s)) totalPixels;
          mediumRatio = js_div (real (mediumPixels s)) totalPixels
      in \<lparr> p_brightness = avgBrightness,
           p_contrast = contrast,
           p_edgeDensity = edgeDensity,
           p_histogram = histogramAcc s,
           p_darkRatio = darkRatio,
           p_brightRatio = brightRatio,
           p_mediumRatio = mediumRatio,
           p_isDark = js_lt avgBrightness 80,
           p_isBright = js_gt avgBrightness 180,
           p_isMedium = (js_ge avgBrightness 80 \<and> js_le avgBrightness 180),
           p_hasHighContrast = (contrast > 0.6),
           p_hasMediumContrast = (contrast > 0.3 \<and> contrast \<le> 0.6),
           p_hasLowContrast = (contrast \<le> 0.3),
           p_isHighDetail = js_gt edgeDensity 0.4,
           p_isMediumDetail = (js_gt edgeDensity 0.2 \<and> js_le edgeDensity 0.4),
           p_isLowDetail = js_le edgeDensity 0.2 \<rparr>)"

text \<open>
  The inputs that \<open>classifyMedicalImagePerfect\<close> reads from its argument:
  the filename scores by key, the scores of \<open>performMedicalImageClassification\<close>
  by modality, and the list of anatomical feature tags.
\<close>

record PerfectAnalyses =
  pa_filename :: "(string \<times> real) list"
  pa_medical :: "(modality \<times> real) list"
  pa_anatomicalFeatures :: "string list"

record PerfectClassification =
  pc_type :: imageType
  pc_confidence :: real
  pc_scores :: "(modality \<times> real) list"

definition filenameStepPerfect :: "string \<times> real \<Rightarrow> (modality \<times> real) list \<Rightarrow> (modality \<times> real) list" where
  "filenameStepPerfect entry scores =
     (case entry of (key, score) \<Rightarrow>
        (if key = ''brain'' then addScore BrainMri (score * 0.25) scores
         else if key = ''chest'' then addScore ChestXray (score * 0.25) scores
         else if key = ''ct''
           then addScore AbdominalCt (score * 0.1) (addScore CtScan (score * 0.15) scores)
         else if key = ''xray''
           then addScore SpineXray (score * 0.05)
                  (addScore BoneXray (score * 0.1) (addScore ChestXray (score * 0.1) scores))
         else if key = ''ultrasound'' then addScore Ultrasound (score * 0.25) scores
         else if key = ''bone''
           then addScore SpineXray (score * 0.05) (addScore BoneXray (score * 0.2) scores)
         else if key = ''abdomen'' then addScore AbdominalCt (score * 0.25) scores
         else if key = ''mammography'' then addScore Mammography (score * 0.25) scores
         else if key = ''dental'' then addScore DentalXray (score * 0.25) scores
         else scores))"

definition featureStepPerfect :: "string \<Rightarrow> (modality \<times> real) list \<Rightarrow> (modality \<times> real) list" where
  "featureStepPerfect feature scores =
     (if feature \<in> {''bilateral-brain-symmetry'', ''brain-tissue-contrast'', ''cranial-structure''}
        then addScore BrainMri 0.08 scores
      else if feature \<in> {''rib-cage-structure'', ''lung-field-pattern'', ''thoracic-anatomy''}
        then addScore ChestXray 0.08 scores
      else if feature \<in> {''bone-cortex'', ''skeletal-structure''}
        then addScore SpineXray 0.04 (addScore BoneXray 0.08 scores)
      else if feature \<in> {''cross-sectional-anatomy'', ''ct-density-patterns''}
        then addScore AbdominalCt 0.02 (addScore CtScan 0.06 scores)
      else if feature \<in> {''acoustic-shadowing'', ''soft-tissue-echoes''}
        then addScore Ultrasound 0.08 scores
      else if feature \<in> {''breast-tissue'', ''mammographic-density''}
        then addScore Mammography 0.08 scores
      else scores)"

definition perfectScores :: "PerfectAnalyses \<Rightarrow> (modality \<times> real) list" where
  "perfectScores analyses =
     (let s0 = [(BrainMri, 0), (ChestXray, 0), (CtScan, 0), (Ultrasound, 0), (BoneXray, 0),
                (AbdominalCt, 0), (Mammography, 0), (DentalXray, 0), (SpineXray, 0)];
          s1 = fold filenameStepPerfect (pa_filename analyses) s0;
          s2 = fold (\<lambda>(type, score). addScore type (score * 0.5)) (pa_medical analyses) s1
      in fold featureStepPerfect (pa_anatomicalFeatures analyses) s2)"

definition classifyMedicalImagePerfect :: "PerfectAnalyses \<Rightarrow> PerfectClassification" where
  "classifyMedicalImagePerfect analyses =
     (let scores = perfectScores analyses;
          maxScore = maxOf (map snd scores);
          classification = selectType scores maxScore;
          confidence = min (maxScore * 100) 98
      in \<lparr> pc_type = classification,
           pc_confidence = max confidence 75,
           pc_scores = scores \<rparr>)"

section \<open>Specification of the pixel loop\<close>

text \<open>
  The rounded brightness of every pixel, in buffer order, and the state of the
  pixel loop after its first \<open>k\<close> iterations written as counts over that
  list. The loop is shown below to compute exactly these counts.
\<close>

definition brightnessAt :: "pixelbuf \<Rightarrow> nat \<Rightarrow> nat" where
  "brightnessAt pixels i = nat (js_round (real (rgbSum pixels i) / 3))"

definition pixelBrightness :: "pixelbuf \<Rightarrow> nat list" where
  "pixelBrightness pixels = map (\<lambda>k. brightnessAt pixels (4 * k)) [0..<length pixels div 4]"

definition edgeAt :: "int \<Rightarrow> pixelbuf \<Rightarrow> nat \<Rightarrow> bool" where
  "edgeAt edgeT pixels k =
     (\<bar>int (unat (pixels ! (4 * k))) - int (unat (pixels ! (4 * k + 4)))\<bar> > edgeT)"

definition visualSpec :: "nat \<Rightarrow> int \<Rightarrow> pixelbuf \<Rightarrow> nat \<Rightarrow> VisualAcc" where
  "visualSpec darkT edgeT pixels k =
     \<lparr> histogramAcc = map (count_list (take k (pixelBrightness pixels))) [0..<256],
       totalBrightness = sum_list (take k (pixelBrightness pixels)),
       edgeCount = length (filter (edgeAt edgeT pixels) [0..<min k (length pixels div 4 - 1)]),
       darkPixels = length (filter (\<lambda>b. b < darkT) (take k (pixelBrightness pixels))),
       brightPixels =
         length (filter (\<lambda>b. \<not> b < darkT \<and> b > 200) (take k (pixelBrightness pixels))),
       mediumPixels =
         length (filter (\<lambda>b. \<not> b < darkT \<and> \<not> b > 200) (take k (pixelBrightness pixels))) \<rparr>"

section \<open>Auxiliary predicates\<close>

text \<open>A buffer that is its own mirror image about the vertical midline: in
  every row the pixel at column \<open>x\<close> has the brightness of the pixel at
  column \<open>width - 1 - x\<close> (equal brightness is equal channel sum).\<close>

definition mirrored :: "pixelbuf \<Rightarrow> nat \<Rightarrow> nat \<Rightarrow> bool" where
  "mirrored pixels width height =
     list_all (\<lambda>y. list_all (\<lambda>x. rgbSum pixels ((y * width + x) * 4)
                                   = rgbSum pixels ((y * width + (width - 1 - x)) * 4))
                 [0..<width]) [0..<height]"

text \<open>Invariants of the symmetry loops and of the texture loops.\<close>

definition symBounded :: "real \<times> nat \<Rightarrow> bool" where
  "symBounded acc = (0 \<le> fst acc \<and> fst acc \<le> real (snd acc))"

definition texNonneg :: "real \<times> real \<times> nat \<Rightarrow> bool" where
  "texNonneg acc = (0 \<le> fst acc \<and> 0 \<le> fst (snd acc))"

text \<open>Invariant of the symmetry loops on a mirrored buffer: every comparison
  so far scored \<open>1\<close>, and there was one.\<close>

definition symOne :: "real \<times> nat \<Rightarrow> bool" where
  "symOne acc = (fst acc = real (snd acc) \<and> 0 < snd acc)"

text \<open>The contrast as a function of the list of pixel brightnesses: the
  population standard deviation over 128, capped at 1.\<close>

definition contrastOf :: "nat list \<Rightarrow> real" where
  "contrastOf bs =
     (if bs = [] then 0
      else min (sqrt ((\<Sum>b\<leftarrow>bs. (real b - real (sum_list bs) / real (length bs))\<^sup>2)
                      / real (length bs)) / 128) 1)"

section \<open>Example images\<close>

text \<open>A single mid-grey pixel.\<close>

definition greyPixel :: pixelbuf where
  "greyPixel = [90, 90, 90, 255]"

text \<open>A dark 3 by 2 image with two light pixels:
  \<^verbatim>\<open>. # .\<close> over \<^verbatim>\<open>. # .\<close> (\<open>.\<close> is black, \<open>#\<close> is grey level 210).\<close>

definition darkImage :: pixelbuf where
  "darkImage =
     [0, 0, 0, 255,  210, 210, 210, 255,  0, 0, 0, 255,
      0, 0, 0, 255,  210, 210, 210, 255,  0, 0, 0, 255]"

text \<open>A 3 by 2 image with one black pixel, four white pixels and one pixel of
  grey level 100.\<close>

definition bandImage :: pixelbuf where
  "bandImage =
     [0, 0, 0, 255,  255, 255, 255, 255,  255, 255, 255, 255,
      255, 255, 255, 255,  255, 255, 255, 255,  100, 100, 100, 255]"

text \<open>A black and white 7 by 5 image (\<open>.\<close> is black, \<open>#\<close> is white):
  \<^verbatim>\<open># . # . # . #\<close>,
  \<^verbatim>\<open># . . . . . #\<close>,
  \<^verbatim>\<open>. . # . # . .\<close>,
  \<^verbatim>\<open># . . . . . .\<close>,
  \<^verbatim>\<open># . # . # . #\<close>.\<close>

definition speckledImage :: pixelbuf where
  "speckledImage =
     [255, 255, 255, 255,  0, 0, 0, 255,  255, 255, 255, 255,  0, 0, 0, 255,
      255, 255, 255, 255,  0, 0, 0, 255,  255, 255, 255, 255,
      255, 255, 255, 255,  0, 0, 0, 255,  0, 0, 0, 255,  0, 0, 0, 255,
      0, 0, 0, 255,  0, 0, 0, 255,  255, 255, 255, 255,
      0, 0, 0, 255,  0, 0, 0, 255,  255, 255, 255, 255,  0, 0, 0, 255,
      255, 255, 255, 255,  0, 0, 0, 255,  0, 0, 0, 255,
      255, 255, 255, 255,  0, 0, 0, 255,  0, 0, 0, 255,  0, 0, 0, 255,
      0, 0, 0, 255,  0, 0, 0, 255,  0, 0, 0, 255,
      255, 255, 255, 255,  0, 0, 0, 255,  255, 255, 255, 255,  0, 0, 0, 255,
      255, 255, 255, 255,  0, 0, 0, 255,  255, 255, 255, 255]"

text \<open>The modality score map with every entry zero, in the key order of the
  clinical profile, and an input of the second profile's classifier on which
  no rule fired: no filename pattern matched, no classification rule held and
  no anatomical feature was tagged.\<close>

definition zeroScores :: "(modality \<times> real) list" where
  "zeroScores = [(ChestXray, 0), (BrainMri, 0), (CtScan, 0), (Ultrasound, 0), (BoneXray, 0),
     (AbdominalCt, 0), (Mammography, 0), (DentalXray, 0), (SpineXray, 0)]"

definition perfectZero :: PerfectAnalyses where
  "perfectZero =
     \<lparr> pa_filename = [(''brain'', 0), (''chest'', 0), (''ct'', 0), (''xray'', 0), (''ultrasound'', 0),
         (''bone'', 0), (''abdomen'', 0), (''mammography'', 0), (''dental'', 0)],
       pa_medical = [(BrainMri, 0), (ChestXray, 0), (CtScan, 0), (Ultrasound, 0), (BoneXray, 0),
         (AbdominalCt, 0), (Mammography, 0), (DentalXray, 0), (SpineXray, 0)],
       pa_anatomicalFeatures = [] \<rparr>"

section \<open>Loops and rounding\<close>

lemma forLoop_step:
  "i < n \<Longrightarrow> 0 < step \<Longrightarrow> forLoop i n step body s = forLoop (i + step) n step body (body i s)"
  by (rule trans [OF forLoop.simps]) simp

lemma forLoop_stop: "\<not> (i < n \<and> 0 < step) \<Longrightarrow> forLoop i n step body s = s"
  by (rule trans [OF forLoop.simps]) auto

lemma forLoop_done: "\<not> i < n \<Longrightarrow> forLoop i n step body s = s"
  by (rule forLoop_stop) simp

lemma forLoop_inv:
  "P s \<Longrightarrow> (\<And>j t. j < n \<Longrightarrow> P t \<Longrightarrow> P (body j t)) \<Longrightarrow> P (forLoop i n step body s)"
proof (induction i n step body s rule: forLoop.induct)
  case (1 i n step body s)
  show ?case
  proof (cases "i < n \<and> 0 < step")
    case True
    then have "P (body i s)" using "1.prems" by blast
    then have "P (forLoop (i + step) n step body (body i s))"
      using True "1.IH" "1.prems"(2) by blast
    then show ?thesis using True forLoop_step[of i n step body s] by simp
  next
    case False
    then have "forLoop i n step body s = s" by (rule forLoop_stop)
    then show ?thesis using "1.prems"(1) by simp
  qed
qed

lemma js_round_third: "js_round (real s / 3) = int ((s + 1) div 3)"
  unfolding js_round_def
proof -
  have "real s / 3 + 1 / 2 = real (2 * s + 3) / real 6" by (simp add: field_simps)
  then have "\<lfloor>real s / 3 + 1 / 2\<rfloor> = int ((2 * s + 3) div 6)"
    by (simp only: floor_divide_of_nat_eq)
  moreover have "(2 * s + 3) div 6 = (s + 1) div 3" by presburger
  ultimately show "\<lfloor>real s / 3 + 1 / 2\<rfloor> = int ((s + 1) div 3)" by simp
qed




section \<open>Rounding to a double\<close>

lemma fl64_zero [simp]: "fl64 0 = 0"
  by (simp add: fl64_def)

lemma roundHalfEven_near: "\<bar>of_int (roundHalfEven y) - y\<bar> \<le> 1 / 2"
  unfolding roundHalfEven_def Let_def by (auto split: if_splits)

lemma fl64_eval:
  assumes "0 < x" and "2 powr of_int e \<le> x" and "x < 2 powr (of_int e + 1)"
  shows "fl64 x = 2 powr (of_int e - 52) * of_int (roundHalfEven (x / 2 powr (of_int e - 52)))"
proof -
  have "\<lfloor>log 2 x\<rfloor> = e"
    using assms by (subst floor_log_eq_powr_iff) simp_all
  then show ?thesis using assms(1) by (simp add: fl64_def Let_def)
qed

lemma fl64_error:
  assumes "0 \<le> x"
  shows "\<bar>fl64 x - x\<bar> \<le> x / 2 ^ 53"
proof (cases "x = 0")
  case True
  then show ?thesis by simp
next
  case False
  then have x: "0 < x" using assms by simp
  define e where "e = \<lfloor>log 2 x\<rfloor>"
  define ulp :: real where "ulp = 2 powr (of_int e - 52)"
  have ulp: "0 < ulp" by (simp add: ulp_def)
  have "of_int e \<le> log 2 x" by (simp add: e_def)
  then have "2 powr of_int e \<le> 2 powr log 2 x" by (subst powr_le_cancel_iff) simp_all
  then have lo: "2 powr of_int e \<le> x" using x by simp
  have f: "fl64 x = ulp * of_int (roundHalfEven (x / ulp))"
    using x by (simp add: fl64_def e_def ulp_def Let_def)
  have "fl64 x - x = ulp * (of_int (roundHalfEven (x / ulp)) - x / ulp)"
    unfolding f using ulp by (simp add: algebra_simps)
  then have "\<bar>fl64 x - x\<bar> = ulp * \<bar>of_int (roundHalfEven (x / ulp)) - x / ulp\<bar>"
    using ulp by (simp add: abs_mult)
  also have "\<dots> \<le> ulp * (1 / 2)"
    using ulp roundHalfEven_near [of "x / ulp"] by (intro mult_left_mono) simp_all
  also have "ulp * (1 / 2) = 2 powr of_int e / 2 ^ 53"
  proof -
    have "ulp = 2 powr of_int e * 2 powr (- 52)"
      unfolding ulp_def by (simp add: powr_add [symmetric])
    also have "(2::real) powr (- 52) = 1 / 2 ^ 52" by (simp add: powr_minus_divide)
    finally show ?thesis by simp
  qed
  also have "\<dots> \<le> x / 2 ^ 53" using lo by (simp add: divide_right_mono)
  finally show ?thesis .
qed

lemma fl64_nonneg: "0 \<le> x \<Longrightarrow> 0 \<le> fl64 x"
proof -
  assume x: "0 \<le> x"
  have "x / 2 ^ 53 \<le> x / 1" using x by (intro divide_left_mono) simp_all
  then have "x / 2 ^ 53 \<le> x" by simp
  moreover have "\<bar>fl64 x - x\<bar> \<le> x / 2 ^ 53" by (rule fl64_error [OF x])
  ultimately show ?thesis by linarith
qed

lemma ratio_sum_bounds:
  fixes d b m n :: nat
  assumes "d + b + m = n" and "0 < n"
  defines "D \<equiv> fl64 (real d / real n)" and "B \<equiv> fl64 (real b / real n)"
    and "M \<equiv> fl64 (real m / real n)"
  shows "\<bar>D + B + M - 1\<bar> \<le> 1 / 2 ^ 53"
    and "\<bar>fl64 (fl64 (D + B) + M) - 1\<bar> \<le> 1 / 2 ^ 51"
proof -
  define u :: real where "u = 1 / 2 ^ 53"
  have u: "0 < u" "u \<le> 1 / 4" by (simp_all add: u_def)
  have err: "0 \<le> x \<Longrightarrow> \<bar>fl64 x - x\<bar> \<le> x * u" for x
    using fl64_error [of x] by (simp add: u_def)
  have n: "0 < real n" using assms(2) by simp
  have one: "real d / real n + real b / real n + real m / real n = 1"
    using assms(1) n by (simp add: add_divide_distrib [symmetric] flip: of_nat_add)
  have eD: "\<bar>D - real d / real n\<bar> \<le> real d / real n * u"
    unfolding D_def by (rule err) simp
  have eB: "\<bar>B - real b / real n\<bar> \<le> real b / real n * u"
    unfolding B_def by (rule err) simp
  have eM: "\<bar>M - real m / real n\<bar> \<le> real m / real n * u"
    unfolding M_def by (rule err) simp
  have "\<bar>D + B + M - 1\<bar>
      = \<bar>(D - real d / real n) + (B - real b / real n) + (M - real m / real n)\<bar>"
    using one by (simp add: algebra_simps)
  also have "\<dots> \<le> real d / real n * u + real b / real n * u + real m / real n * u"
    using eD eB eM by linarith
  also have "\<dots> = (real d / real n + real b / real n + real m / real n) * u"
    by (simp only: distrib_right)
  also have "\<dots> = u" by (simp only: one mult_1)
  finally have s3: "\<bar>D + B + M - 1\<bar> \<le> u" .
  then show "\<bar>D + B + M - 1\<bar> \<le> 1 / 2 ^ 53" by (simp add: u_def)
  have D0: "0 \<le> D" unfolding D_def by (rule fl64_nonneg) simp
  have B0: "0 \<le> B" unfolding B_def by (rule fl64_nonneg) simp
  have M0: "0 \<le> M" unfolding M_def by (rule fl64_nonneg) simp
  define T where "T = fl64 (D + B)"
  have eT: "\<bar>T - (D + B)\<bar> \<le> (D + B) * u" unfolding T_def using D0 B0 by (intro err) simp
  have T0: "0 \<le> T" unfolding T_def using D0 B0 by (intro fl64_nonneg) simp
  define S where "S = fl64 (T + M)"
  have eS: "\<bar>S - (T + M)\<bar> \<le> (T + M) * u" unfolding S_def using T0 M0 by (intro err) simp
  have DB: "D + B \<le> 1 + u" using s3 M0 by linarith
  have "(D + B) * u \<le> (1 + u) * u" using DB u(1) by (intro mult_right_mono) simp_all
  then have tb: "(D + B) * u \<le> u + u * u" by (simp add: algebra_simps)
  have q: "u * u \<le> 1 / 4 * u" using u by (intro mult_right_mono) simp_all
  have TM: "T + M \<le> 1 + 3 * u" using eT tb q s3 u by linarith
  have "(T + M) * u \<le> (1 + 3 * u) * u" using TM u(1) by (intro mult_right_mono) simp_all
  then have sb: "(T + M) * u \<le> u + 3 * (u * u)" by (simp add: algebra_simps)
  have "\<bar>S - 1\<bar> \<le> 4 * u" using eS sb eT tb s3 q by linarith
  also have "4 * u \<le> 1 / 2 ^ 51" by (simp add: u_def)
  finally show "\<bar>fl64 (fl64 (D + B) + M) - 1\<bar> \<le> 1 / 2 ^ 51"
    unfolding S_def T_def .
qed

text \<open>The doubles nearest to the quotients of the example images.\<close>

lemma fl64_one: "fl64 (1) = 1"
  by (subst fl64_eval [of _ 0]) (simp_all add: roundHalfEven_def powr_minus_divide)

lemma fl64_70: "fl64 (70) = 70"
  by (subst fl64_eval [of _ 6]) (simp_all add: roundHalfEven_def powr_minus_divide)

lemma fl64_90: "fl64 (90) = 90"
  by (subst fl64_eval [of _ 6]) (simp_all add: roundHalfEven_def powr_minus_divide)

lemma fl64_three_halves: "fl64 (3 / 2) = 3 / 2"
  by (subst fl64_eval [of _ 0]) (simp_all add: roundHalfEven_def powr_minus_divide)

lemma fl64_two_thirds: "fl64 (2 / 3) = 6004799503160661 / 9007199254740992"
  by (subst fl64_eval [of _ "- 1"]) (simp_all add: roundHalfEven_def powr_minus_divide)

lemma fl64_one_third: "fl64 (1 / 3) = 6004799503160661 / 18014398509481984"
  by (subst fl64_eval [of _ "- 2"]) (simp_all add: roundHalfEven_def powr_minus_divide)

lemma fl64_one_sixth: "fl64 (1 / 6) = 6004799503160661 / 36028797018963968"
  by (subst fl64_eval [of _ "- 3"]) (simp_all add: roundHalfEven_def powr_minus_divide)

lemma fl64_seven_fifths: "fl64 (7 / 5) = 3152519739159347 / 2251799813685248"
  by (subst fl64_eval [of _ 0]) (simp_all add: roundHalfEven_def powr_minus_divide)

lemma fl64_663_7: "fl64 (663 / 7) = 6664925341398747 / 70368744177664"
  by (subst fl64_eval [of _ 6]) (simp_all add: roundHalfEven_def powr_minus_divide)

lemma fl64_22_35: "fl64 (22 / 35) = 1415417025745013 / 2251799813685248"
  by (subst fl64_eval [of _ "- 1"]) (simp_all add: roundHalfEven_def powr_minus_divide)

lemma fl64_13_35: "fl64 (13 / 35) = 836382787940235 / 2251799813685248"
  by (subst fl64_eval [of _ "- 2"]) (simp_all add: roundHalfEven_def powr_minus_divide)

lemma fl64_band_partial: "fl64 (30023997515803305 / 36028797018963968) = 3752999689475413 / 4503599627370496"
  by (subst fl64_eval [of _ "- 1"]) (simp_all add: roundHalfEven_def powr_minus_divide)

lemma fl64_band_total: "fl64 (36028797018963965 / 36028797018963968) = 9007199254740991 / 9007199254740992"
  by (subst fl64_eval [of _ "- 1"]) (simp_all add: roundHalfEven_def powr_minus_divide)

lemmas fl64_values = fl64_one fl64_70 fl64_90 fl64_three_halves fl64_two_thirds fl64_one_third
  fl64_one_sixth fl64_seven_fifths fl64_663_7 fl64_22_35 fl64_13_35

section \<open>The pixel loop computes its specification\<close>

lemma brightnessAt_eq: "brightnessAt pixels i = (rgbSum pixels i + 1) div 3"
  by (simp add: brightnessAt_def js_round_third)

lemma rgbSum_le: "rgbSum pixels i \<le> 765"
proof -
  have b: "unat w \<le> 255" for w :: "8 word"
    using unsigned_less [of w, where 'a = nat] by simp
  show ?thesis unfolding rgbSum_def
    using b [of "pixels ! i"] b [of "pixels ! (i + 1)"] b [of "pixels ! (i + 2)"] by linarith
qed

lemma brightnessAt_le: "brightnessAt pixels i < 256"
  using rgbSum_le [of pixels i] by (simp add: brightnessAt_eq) 

lemma hist_update:
  assumes "b < 256"
  shows "(map (count_list bs) [0..<256])[b := Suc (count_list bs b)]
         = map (count_list (bs @ [b])) [0..<256]"
  using assms by (intro nth_equalityI) (auto simp: nth_list_update)

lemma visualSpec_0: "visualSpec d e pixels 0 = visualInit"
proof -
  have "map (count_list []) [0..<256] = replicate 256 (0::nat)"
    by (intro nth_equalityI) simp_all
  then show ?thesis by (simp add: visualSpec_def visualInit_def)
qed

lemma pixelBrightness_nth:
  "k < length pixels div 4 \<Longrightarrow> pixelBrightness pixels ! k = brightnessAt pixels (4 * k)"
  by (simp add: pixelBrightness_def)

lemma length_pixelBrightness: "length (pixelBrightness pixels) = length pixels div 4"
  by (simp add: pixelBrightness_def)

lemma rgba_len: "rgba pixels \<Longrightarrow> length pixels = 4 * (length pixels div 4)"
  by (simp add: rgba_def) presburger

lemma visualStep_sel:
  "histogramAcc (visualStep d e pixels i s) =
     (histogramAcc s)[brightnessAt pixels i := histogramAcc s ! brightnessAt pixels i + 1]"
  "totalBrightness (visualStep d e pixels i s) = totalBrightness s + brightnessAt pixels i"
  "darkPixels (visualStep d e pixels i s) =
     darkPixels s + (if brightnessAt pixels i < d then 1 else 0)"
  "brightPixels (visualStep d e pixels i s) =
     brightPixels s + (if \<not> brightnessAt pixels i < d \<and> brightnessAt pixels i > 200 then 1 else 0)"
  "mediumPixels (visualStep d e pixels i s) =
     mediumPixels s + (if \<not> brightnessAt pixels i < d \<and> \<not> brightnessAt pixels i > 200 then 1 else 0)"
  "edgeCount (visualStep d e pixels i s) =
     edgeCount s + (if i + 4 < length pixels
                      \<and> \<bar>int (unat (pixels ! i)) - int (unat (pixels ! (i + 4)))\<bar> > e then 1 else 0)"
  "VisualAcc.more (visualStep d e pixels i s) = VisualAcc.more s"
  by (simp_all add: visualStep_def Let_def brightnessAt_def)

lemma visualStep_spec:
  assumes "rgba pixels" and "k < length pixels div 4"
  shows "visualStep d e pixels (4 * k) (visualSpec d e pixels k) = visualSpec d e pixels (Suc k)"
proof -
  let ?bs = "pixelBrightness pixels"
  let ?b = "brightnessAt pixels (4 * k)"
  have tk: "take (Suc k) ?bs = take k ?bs @ [?b]"
    using assms(2) by (simp add: take_Suc_conv_app_nth length_pixelBrightness pixelBrightness_nth)
  have b: "?b < 256" by (rule brightnessAt_le)
  have edge: "4 * k + 4 < length pixels \<longleftrightarrow> k < length pixels div 4 - 1"
    using rgba_len [OF assms(1)] assms(2) by linarith
  show ?thesis
  proof (rule VisualAcc.equality)
    show "histogramAcc (visualStep d e pixels (4 * k) (visualSpec d e pixels k))
        = histogramAcc (visualSpec d e pixels (Suc k))"
      using b by (simp add: visualStep_sel(1) visualSpec_def tk hist_update)
    show "edgeCount (visualStep d e pixels (4 * k) (visualSpec d e pixels k))
        = edgeCount (visualSpec d e pixels (Suc k))"
    proof (cases "k < length pixels div 4 - 1")
      case True
      then have "min (Suc k) (length pixels div 4 - 1) = Suc k" "min k (length pixels div 4 - 1) = k"
        by simp_all
      then show ?thesis
        unfolding visualStep_sel(6) edge using True by (simp add: visualSpec_def edgeAt_def)
    next
      case False
      then have "min (Suc k) (length pixels div 4 - 1) = min k (length pixels div 4 - 1)"
        by simp
      then show ?thesis
        unfolding visualStep_sel(6) edge using False by (simp add: visualSpec_def)
    qed
  qed (simp_all add: visualStep_sel visualSpec_def tk)
qed

lemma visualLoop_spec:
  assumes "rgba pixels"
  shows "k \<le> length pixels div 4 \<Longrightarrow>
         forLoop (4 * k) (length pixels) 4 (visualStep d e pixels) (visualSpec d e pixels k)
         = visualSpec d e pixels (length pixels div 4)"
proof (induction "length pixels div 4 - k" arbitrary: k)
  case 0
  then have "k = length pixels div 4" by simp
  then have "\<not> 4 * k < length pixels" using rgba_len [OF assms] by simp
  then show ?case using \<open>k = length pixels div 4\<close> by (simp add: forLoop_done)
next
  case (Suc m)
  then have lt: "k < length pixels div 4" by simp
  then have "4 * k < length pixels" using rgba_len [OF assms] by linarith
  then have "forLoop (4 * k) (length pixels) 4 (visualStep d e pixels) (visualSpec d e pixels k)
      = forLoop (4 * Suc k) (length pixels) 4 (visualStep d e pixels) (visualSpec d e pixels (Suc k))"
    using visualStep_spec [OF assms lt] by (simp add: forLoop_step add.commute)
  also have "\<dots> = visualSpec d e pixels (length pixels div 4)"
    using Suc lt by (intro Suc.hyps(1)) simp_all
  finally show ?case .
qed

lemma visualScan_spec:
  "rgba pixels \<Longrightarrow> visualScan d e pixels = visualSpec d e pixels (length pixels div 4)"
  using visualLoop_spec [of pixels 0 d e] by (simp add: visualScan_def visualSpec_0)

lemma count_partition:
  "length (filter (\<lambda>b. b < (d::nat)) bs) + length (filter (\<lambda>b. \<not> b < d \<and> b > 200) bs)
     + length (filter (\<lambda>b. \<not> b < d \<and> \<not> b > 200) bs) = length bs"
  by (induction bs) auto

section \<open>Ranges of the extracted features\<close>

lemma similarity_bounds:
  "0 \<le> max 0 (255 - \<bar>a - b\<bar>) / (255::real) \<and> max 0 (255 - \<bar>a - b\<bar>) / (255::real) \<le> 1"
  by (simp add: max_def)

lemma symmetryPair_bounded:
  assumes "symBounded acc"
  shows "symBounded (symmetryPair pixels a b acc)"
proof (cases "a < length pixels \<and> b < length pixels")
  case True
  define s where "s = max 0 (255 - \<bar>real (rgbSum pixels a) / 3 - real (rgbSum pixels b) / 3\<bar>) / 255"
  have e: "symmetryPair pixels a b acc = (fst acc + s, snd acc + 1)"
    using True by (simp add: symmetryPair_def Let_def s_def)
  have "0 \<le> s" "s \<le> 1" unfolding s_def using similarity_bounds by blast+
  then show ?thesis using assms unfolding e symBounded_def by simp
next
  case False
  then show ?thesis using assms by (auto simp: symmetryPair_def)
qed

lemma bilateralScan_bounded: "symBounded (bilateralScan stride pixels w h)"
  unfolding bilateralScan_def Let_def
proof (rule forLoop_inv)
  show "symBounded (0, 0)" by (simp add: symBounded_def)
  fix y t assume "symBounded t"
  then show "symBounded (forLoop 0 (w div 2) stride
      (\<lambda>x. symmetryPair pixels ((y * w + x) * 4) ((y * w + (w - 1 - x)) * 4)) t)"
    by (rule forLoop_inv) (rule symmetryPair_bounded)
qed

lemma verticalScan_bounded: "symBounded (verticalScan stride pixels w h)"
  unfolding verticalScan_def Let_def
proof (rule forLoop_inv)
  show "symBounded (0, 0)" by (simp add: symBounded_def)
  fix x t assume "symBounded t"
  then show "symBounded (forLoop 0 (h div 2) stride
      (\<lambda>y. symmetryPair pixels ((y * w + x) * 4) (((h - 1 - y) * w + x) * 4)) t)"
    by (rule forLoop_inv) (rule symmetryPair_bounded)
qed

lemma symmetryResult_bounded:
  "symBounded acc \<Longrightarrow> 0 \<le> symmetryResult acc \<and> symmetryResult acc \<le> 1"
  by (simp add: symBounded_def symmetryResult_def)

lemma variance_fold_nonneg:
  "0 \<le> a \<Longrightarrow>
   0 \<le> foldl (\<lambda>v (index, count). if count > 0 then v + real count * (real index - mean)\<^sup>2 else v)
         a xs"
  by (induction xs arbitrary: a) (auto simp: case_prod_beta)

lemma contrast_bounded:
  "0 \<le> calculateClinicalContrast hist \<and> calculateClinicalContrast hist \<le> 1"
  using variance_fold_nonneg [of 0]
  by (simp add: calculateClinicalContrast_def Let_def)

lemma neighborStep_nonneg:
  "0 \<le> fst acc \<Longrightarrow> 0 \<le> fst (neighborStep pixels w x y cb d acc)"
  by (cases d) (simp add: neighborStep_def Let_def)

lemma fold_neighborStep_nonneg:
  "0 \<le> fst acc \<Longrightarrow> 0 \<le> fst (fold (neighborStep pixels w x y cb) ds acc)"
  by (induction ds arbitrary: acc) (simp_all add: neighborStep_nonneg)

lemma neighborScan_nonneg: "0 \<le> fst (neighborScan pixels w x y)"
  unfolding neighborScan_def by (rule fold_neighborStep_nonneg) simp

lemma squares_fold_nonneg:
  "0 \<le> a \<Longrightarrow> 0 \<le> foldl (\<lambda>sum diff. sum + (diff - m)\<^sup>2) (a::real) xs"
  by (induction xs arbitrary: a) simp_all

lemma textureStep_nonneg: "texNonneg acc \<Longrightarrow> texNonneg (textureStep pixels w y x acc)"
  using neighborScan_nonneg [of pixels w x y] squares_fold_nonneg [of 0]
  by (cases acc) (simp add: texNonneg_def textureStep_def Let_def case_prod_beta)

lemma textureScan_nonneg: "texNonneg (textureScan stride pixels w h)"
  unfolding textureScan_def
proof (rule forLoop_inv)
  show "texNonneg (0, 0, 0)" by (simp add: texNonneg_def)
  fix y t assume "texNonneg t"
  then show "texNonneg (forLoop 2 (w - 2) stride (textureStep pixels w y) t)"
    by (rule forLoop_inv) (rule textureStep_nonneg)
qed

section \<open>Symmetry of a mirrored buffer\<close>

lemma mirroredD:
  assumes "mirrored pixels w h" and "y < h" and "x < w"
  shows "rgbSum pixels ((y * w + x) * 4) = rgbSum pixels ((y * w + (w - 1 - x)) * 4)"
proof -
  have "y \<in> set [0..<h]" "x \<in> set [0..<w]" using assms(2,3) by simp_all
  with assms(1) show ?thesis unfolding mirrored_def list_all_iff by blast
qed

lemma symmetryPair_equal:
  assumes "rgbSum pixels a = rgbSum pixels b"
  shows "symmetryPair pixels a b acc =
     (if a < length pixels \<and> b < length pixels then (fst acc + 1, snd acc + 1) else acc)"
  using assms by (simp add: symmetryPair_def Let_def)

lemma symmetryPair_one:
  "rgbSum pixels a = rgbSum pixels b \<Longrightarrow> symOne acc \<Longrightarrow> symOne (symmetryPair pixels a b acc)"
  by (simp add: symmetryPair_equal symOne_def)

lemma mirror_row_one:
  assumes "mirrored pixels w h" and "y < h" and "symOne t"
  shows "symOne (forLoop i (w div 2) stride
           (\<lambda>x. symmetryPair pixels ((y * w + x) * 4) ((y * w + (w - 1 - x)) * 4)) t)"
  using assms(3)
proof (rule forLoop_inv)
  fix x u assume "x < w div 2" and "symOne u"
  then have "x < w" by simp
  from mirroredD [OF assms(1,2) this] \<open>symOne u\<close>
  show "symOne (symmetryPair pixels ((y * w + x) * 4) ((y * w + (w - 1 - x)) * 4) u)"
    by (rule symmetryPair_one)
qed

lemma mirror_scan_one:
  assumes "mirrored pixels w h" and "length pixels = 4 * w * h"
    and "2 \<le> w" and "1 \<le> h" and "0 < stride"
  shows "symOne (bilateralScan stride pixels w h)"
proof -
  let ?inner = "\<lambda>y x. symmetryPair pixels ((y * w + x) * 4) ((y * w + (w - 1 - x)) * 4)"
  let ?row = "\<lambda>y. forLoop 0 (w div 2) stride (?inner y)"
  have cx: "0 < w div 2" using assms(3) by simp
  have "w \<le> w * h" using assms(4) by simp
  then have "w - 1 < w * h" using assms(3) by linarith
  then have in_range: "(w - 1) * 4 < length pixels" "0 < length pixels"
    using assms(2,3,4) by simp_all
  have "rgbSum pixels 0 = rgbSum pixels ((w - 1) * 4)"
    using mirroredD [OF assms(1), of 0 0] assms(3,4) by simp
  then have first: "?inner 0 0 (0, 0) = (1, 1)"
    using in_range by (simp add: symmetryPair_equal)
  have h0: "0 < h" using assms(4) by simp
  have one: "symOne (1, 1)" by (simp add: symOne_def)
  have "?row 0 (0, 0) = forLoop (0 + stride) (w div 2) stride (?inner 0) (?inner 0 0 (0, 0))"
    using cx assms(5) by (rule forLoop_step)
  moreover have "symOne (forLoop (0 + stride) (w div 2) stride (?inner 0) (?inner 0 0 (0, 0)))"
    unfolding first using assms(1) h0 one by (rule mirror_row_one)
  ultimately have row0: "symOne (?row 0 (0, 0))" by (simp only:)
  have "forLoop 0 h stride ?row (0, 0) = forLoop (0 + stride) h stride ?row (?row 0 (0, 0))"
    using h0 assms(5) by (rule forLoop_step)
  moreover have "symOne (forLoop (0 + stride) h stride ?row (?row 0 (0, 0)))"
    using row0
  proof (rule forLoop_inv)
    fix y t assume "y < h" and "symOne t"
    with assms(1) show "symOne (?row y t)" by (rule mirror_row_one)
  qed
  ultimately show ?thesis unfolding bilateralScan_def Let_def by (simp only:)
qed

lemma symmetryResult_one: "symOne acc \<Longrightarrow> symmetryResult acc = 1"
  by (simp add: symOne_def symmetryResult_def)

section \<open>The list of top pathologies\<close>

lemma top_filtered:
  "list_all (\<lambda>e. snd e > c) (take n (sort_key f (filter (\<lambda>(_, s). s > c) xs)))"
proof -
  have "set (take n (sort_key f (filter (\<lambda>(_, s). s > c) xs))) \<subseteq> set (filter (\<lambda>(_, s). s > c) xs)"
    using set_take_subset [of n "sort_key f (filter (\<lambda>(_, s). s > c) xs)"] by simp
  then show ?thesis by (auto simp: list_all_iff)
qed

lemma top_sorted:
  "sorted_wrt (\<lambda>a b. snd a \<ge> snd b) (take n (sort_key (\<lambda>(_, s). - s) (xs :: ('k \<times> real) list)))"
proof -
  have "sorted (map (\<lambda>(_, s). - s) (sort_key (\<lambda>(_, s). - s) xs))"
    by (rule sorted_sort_key)
  then have "sorted_wrt (\<lambda>a b. snd a \<ge> snd b) (sort_key (\<lambda>(_, s). - s) xs)"
    by (simp add: sorted_wrt_map case_prod_beta)
  then show ?thesis by (rule sorted_wrt_take)
qed

lemma first_is_hd: "(length xs > 0 \<and> P (xs ! 0)) = (xs \<noteq> [] \<and> P (hd xs))"
  by (cases xs) simp_all

section \<open>Evaluating the visual features of a buffer\<close>

lemma pixelBrightness_Nil: "pixelBrightness [] = []"
  by (simp add: pixelBrightness_def)

lemma brightnessAt_shift:
  "brightnessAt (r # g # b # a # rest) (4 * Suc k) = brightnessAt rest (4 * k)"
  by (simp add: brightnessAt_def rgbSum_def)

lemma pixelBrightness_Cons:
  "pixelBrightness (r # g # b # a # rest)
     = ((unat r + unat g + unat b + 1) div 3) # pixelBrightness rest"
proof -
  have "[0..<Suc (length rest div 4)] = 0 # map Suc [0..<length rest div 4]"
    by (simp add: upt_conv_Cons map_Suc_upt del: upt_Suc)
  then show ?thesis
    by (simp add: pixelBrightness_def brightnessAt_shift comp_def del: upt_Suc)
       (simp add: brightnessAt_eq rgbSum_def)
qed

lemma foldl_plus_conv:
  "foldl (\<lambda>a x. a + g x) a0 xs = a0 + sum_list (map g xs)"
  for a0 :: "'a::monoid_add"
  by (induction xs arbitrary: a0) (simp_all add: add.assoc)

lemma delta_sum_list:
  "b < n \<Longrightarrow> (\<Sum>v\<leftarrow>[0..<n]. if b = v then f v else (0::'a::semiring_1)) = f b"
  by (simp add: interv_sum_list_conv_sum_set_nat)

lemma count_sum:
  "\<forall>b\<in>set bs. b < n \<Longrightarrow>
   (\<Sum>v\<leftarrow>[0..<n]. of_nat (count_list bs v) * f v) = (\<Sum>b\<leftarrow>bs. (f b :: 'a::semiring_1))"
proof (induction bs)
  case Nil
  then show ?case by simp
next
  case (Cons b bs)
  have "(\<Sum>v\<leftarrow>[0..<n]. of_nat (count_list (b # bs) v) * f v)
      = (\<Sum>v\<leftarrow>[0..<n]. of_nat (count_list bs v) * f v + (if b = v then f v else 0))"
    by (intro arg_cong [where f = sum_list] map_cong refl) (simp add: algebra_simps)
  also have "\<dots> = (\<Sum>v\<leftarrow>[0..<n]. of_nat (count_list bs v) * f v)
      + (\<Sum>v\<leftarrow>[0..<n]. if b = v then f v else 0)"
    by (rule sum_list_addf)
  also have "\<dots> = (\<Sum>b\<leftarrow>bs. f b) + f b"
    using Cons by (simp add: delta_sum_list)
  finally show ?case by (simp add: add.commute)
qed

lemma enumerate_hist:
  "enumerate 0 (map h [0..<n]) = map (\<lambda>v. (v, h v)) [0..<n]"
  by (intro nth_equalityI) (simp_all add: nth_enumerate_eq)

lemma contrast_hist:
  assumes "\<forall>b\<in>set bs. b < 256"
  shows "calculateClinicalContrast (map (count_list bs) [0..<256]) = contrastOf bs"
proof -
  let ?h = "map (count_list bs) [0..<256]"
  have total: "foldl (\<lambda>sum count. sum + count) 0 ?h = length bs"
    using count_sum [OF assms, of "\<lambda>_. 1::nat"]
    by (simp add: foldl_plus_conv [of "\<lambda>x. x", simplified] comp_def sum_list_triv)
  have g: "(\<lambda>sum (index, count). sum + count * index) = (\<lambda>a x. a + snd x * fst x)"
    by (auto simp: fun_eq_iff)
  have weighted: "foldl (\<lambda>sum (index, count). sum + count * index) 0 (enumerate 0 ?h) = sum_list bs"
    unfolding g using count_sum [OF assms, of "\<lambda>v. v"]
    by (simp add: enumerate_hist foldl_plus_conv comp_def)
  have f: "(\<lambda>v (index, count). if count > 0 then v + real count * (real index - m)\<^sup>2 else v)
      = (\<lambda>v x. v + real (snd x) * (real (fst x) - m)\<^sup>2)" for m
    by (auto simp: fun_eq_iff)
  have var: "foldl (\<lambda>v (index, count). if count > 0 then v + real count * (real index - m)\<^sup>2 else v)
        0 (enumerate 0 ?h) = (\<Sum>b\<leftarrow>bs. (real b - m)\<^sup>2)" for m
    unfolding f using count_sum [OF assms, of "\<lambda>v. (real v - m)\<^sup>2"]
    by (simp add: enumerate_hist foldl_plus_conv comp_def)
  show ?thesis
    unfolding calculateClinicalContrast_def Let_def total weighted var contrastOf_def
    by simp
qed

lemma pixelBrightness_bound: "\<forall>b\<in>set (pixelBrightness pixels). b < 256"
  by (auto simp: pixelBrightness_def brightnessAt_le)

lemma visual_fields:
  assumes "rgba pixels"
  shows "brightness (performAdvancedVisualAnalysis pixels w h)
           = js_div (real (sum_list (pixelBrightness pixels))) (real (length (pixelBrightness pixels)))"
    and "darkRatio (performAdvancedVisualAnalysis pixels w h)
           = js_div (real (length (filter (\<lambda>b. b < 50) (pixelBrightness pixels))))
               (real (length (pixelBrightness pixels)))"
    and "brightRatio (performAdvancedVisualAnalysis pixels w h)
           = js_div (real (length (filter (\<lambda>b. \<not> b < 50 \<and> b > 200) (pixelBrightness pixels))))
               (real (length (pixelBrightness pixels)))"
    and "mediumRatio (performAdvancedVisualAnalysis pixels w h)
           = js_div (real (length (filter (\<lambda>b. \<not> b < 50 \<and> \<not> b > 200) (pixelBrightness pixels))))
               (real (length (pixelBrightness pixels)))"
    and "edgeDensity (performAdvancedVisualAnalysis pixels w h)
           = js_div (real (length (filter (edgeAt 30 pixels) [0..<length (pixelBrightness pixels) - 1])))
               (real (length (pixelBrightness pixels)))"
    and "contrast (performAdvancedVisualAnalysis pixels w h) = contrastOf (pixelBrightness pixels)"
proof -
  have "real (length pixels) = real (4 * (length pixels div 4))"
    using rgba_len [OF assms] by simp
  then have n: "real (length pixels) / 4 = real (length (pixelBrightness pixels))"
    by (simp add: length_pixelBrightness)
  have t: "take (length pixels div 4) (pixelBrightness pixels) = pixelBrightness pixels"
    by (simp add: length_pixelBrightness)
  have s: "visualScan 50 30 pixels = visualSpec 50 30 pixels (length pixels div 4)"
    by (rule visualScan_spec [OF assms])
  show "brightness (performAdvancedVisualAnalysis pixels w h)
           = js_div (real (sum_list (pixelBrightness pixels))) (real (length (pixelBrightness pixels)))"
    by (simp add: performAdvancedVisualAnalysis_def Let_def s n visualSpec_def t)
  show "darkRatio (performAdvancedVisualAnalysis pixels w h)
           = js_div (real (length (filter (\<lambda>b. b < 50) (pixelBrightness pixels))))
               (real (length (pixelBrightness pixels)))"
    by (simp add: performAdvancedVisualAnalysis_def Let_def s n visualSpec_def t)
  show "brightRatio (performAdvancedVisualAnalysis pixels w h)
           = js_div (real (length (filter (\<lambda>b. \<not> b < 50 \<and> b > 200) (pixelBrightness pixels))))
               (real (length (pixelBrightness pixels)))"
    by (simp add: performAdvancedVisualAnalysis_def Let_def s n visualSpec_def t)
  show "mediumRatio (performAdvancedVisualAnalysis pixels w h)
           = js_div (real (length (filter (\<lambda>b. \<not> b < 50 \<and> \<not> b > 200) (pixelBrightness pixels))))
               (real (length (pixelBrightness pixels)))"
    by (simp add: performAdvancedVisualAnalysis_def Let_def s n visualSpec_def t)
  show "edgeDensity (performAdvancedVisualAnalysis pixels w h)
           = js_div (real (length (filter (edgeAt 30 pixels) [0..<length (pixelBrightness pixels) - 1])))
               (real (length (pixelBrightness pixels)))"
    by (simp add: performAdvancedVisualAnalysis_def Let_def s n visualSpec_def length_pixelBrightness)
  show "contrast (performAdvancedVisualAnalysis pixels w h) = contrastOf (pixelBrightness pixels)"
    using contrast_hist [OF pixelBrightness_bound, of pixels]
    by (simp add: performAdvancedVisualAnalysis_def Let_def s visualSpec_def t)
qed

lemma visual_flags:
  "clinicalFeatures (performAdvancedVisualAnalysis pixels w h) =
     \<lparr> isDark = js_lt (brightness (performAdvancedVisualAnalysis pixels w h)) 80,
       isBright = js_gt (brightness (performAdvancedVisualAnalysis pixels w h)) 180,
       isMedium = (js_ge (brightness (performAdvancedVisualAnalysis pixels w h)) 80
                   \<and> js_le (brightness (performAdvancedVisualAnalysis pixels w h)) 180),
       hasHighContrast = (contrast (performAdvancedVisualAnalysis pixels w h) > 0.6),
       hasClinicalContrast = (contrast (performAdvancedVisualAnalysis pixels w h) > 0.3
                   \<and> contrast (performAdvancedVisualAnalysis pixels w h) \<le> 0.6),
       hasLowContrast = (contrast (performAdvancedVisualAnalysis pixels w h) \<le> 0.3),
       isHighDetail = js_gt (edgeDensity (performAdvancedVisualAnalysis pixels w h)) 0.4,
       isClinicalDetail = (js_gt (edgeDensity (performAdvancedVisualAnalysis pixels w h)) 0.2
                   \<and> js_le (edgeDensity (performAdvancedVisualAnalysis pixels w h)) 0.4),
       isLowDetail = js_le (edgeDensity (performAdvancedVisualAnalysis pixels w h)) 0.2 \<rparr>"
  by (simp add: performAdvancedVisualAnalysis_def Let_def)

lemma visual_indicators:
  "pathologyIndicators (performAdvancedVisualAnalysis pixels w h) =
     \<lparr> ind_pneumonia = (js_lt (darkRatio (performAdvancedVisualAnalysis pixels w h)) 0.6
                        \<and> contrast (performAdvancedVisualAnalysis pixels w h) > 0.4),
       ind_atelectasis = (js_gt (darkRatio (performAdvancedVisualAnalysis pixels w h)) 0.7
                        \<and> js_gt (edgeDensity (performAdvancedVisualAnalysis pixels w h)) 0.3),
       ind_cardiomegaly = (js_gt (mediumRatio (performAdvancedVisualAnalysis pixels w h)) 0.4
                        \<and> js_gt (brightness (performAdvancedVisualAnalysis pixels w h)) 100),
       ind_pleural_effusion = (js_gt (darkRatio (performAdvancedVisualAnalysis pixels w h)) 0.8
                        \<and> contrast (performAdvancedVisualAnalysis pixels w h) < 0.3),
       ind_normal_chest = (js_gt (darkRatio (performAdvancedVisualAnalysis pixels w h)) 0.6
                        \<and> js_lt (darkRatio (performAdvancedVisualAnalysis pixels w h)) 0.8
                        \<and> contrast (performAdvancedVisualAnalysis pixels w h) > 0.3) \<rparr>"
  by (simp add: performAdvancedVisualAnalysis_def Let_def)

lemma variance_expand:
  "(\<Sum>b\<leftarrow>bs. (real b - m)\<^sup>2)
     = (\<Sum>b\<leftarrow>bs. (real b)\<^sup>2) - 2 * m * real (sum_list bs) + real (length bs) * m\<^sup>2"
  by (induction bs) (simp_all add: power2_eq_square algebra_simps)

lemma lt_sqrt_iff:
  assumes "0 \<le> a"
  shows "(a < sqrt x) = (a\<^sup>2 < x)"
proof -
  have "(a < sqrt x) = (sqrt (a\<^sup>2) < sqrt x)"
    using assms by (simp only: real_sqrt_abs abs_of_nonneg)
  also have "\<dots> = (a\<^sup>2 < x)" by (rule real_sqrt_less_iff)
  finally show ?thesis .
qed

lemma contrastOf_gt:
  assumes "bs \<noteq> []" and "0 \<le> c" and "c < 1"
  shows "(contrastOf bs > c)
     = ((128 * c)\<^sup>2 * (real (length bs))\<^sup>2
          < real (length bs) * (\<Sum>b\<leftarrow>bs. (real b)\<^sup>2) - (real (sum_list bs))\<^sup>2)"
proof -
  let ?n = "real (length bs)"
  let ?S = "real (sum_list bs)"
  let ?Q = "\<Sum>b\<leftarrow>bs. (real b)\<^sup>2"
  let ?V = "\<Sum>b\<leftarrow>bs. (real b - ?S / ?n)\<^sup>2"
  have n: "0 < ?n" using assms(1) by simp
  have "?V = ?Q - 2 * (?S / ?n) * ?S + ?n * (?S / ?n)\<^sup>2"
    by (rule variance_expand)
  also have "\<dots> = ?Q - ?S\<^sup>2 / ?n"
    using n by (simp add: field_simps power2_eq_square)
  finally have V: "?V = ?Q - ?S\<^sup>2 / ?n" .
  have "(contrastOf bs > c) = (sqrt (?V / ?n) / 128 > c)"
    using assms by (simp add: contrastOf_def)
  also have "\<dots> = (sqrt (?V / ?n) > 128 * c)" by (simp add: field_simps)
  also have "\<dots> = (?V / ?n > (128 * c)\<^sup>2)"
    using assms(2) by (intro lt_sqrt_iff) simp
  also have "\<dots> = ((128 * c)\<^sup>2 * ?n\<^sup>2 < ?n * ?Q - ?S\<^sup>2)"
    unfolding V using n by (simp add: field_simps power2_eq_square)
  finally show ?thesis .
qed

section \<open>Structure, texture and file name of the example images\<close>

lemma structural_flags:
  "anatomicalFeatures (analyzeAnatomicalStructure pixels w h) =
     \<lparr> isChestXray = (js_gt (js_div (real w) (real h)) 1.2 \<and> js_lt (js_div (real w) (real h)) 1.8),
       isBrainMRI = (js_lt (js_abs_sub (js_div (real w) (real h)) 1) 0.2
                     \<and> calculateBilateralSymmetry pixels w h > 0.7),
       isCTScan = js_lt (js_abs_sub (js_div (real w) (real h)) 1) 0.15,
       isSpineXray = js_lt (js_div (real w) (real h)) 0.6,
       isMammography = (js_lt (js_div (real w) (real h)) 0.8 \<and> js_gt (js_div (real w) (real h)) 0.4) \<rparr>"
  and structural_symmetry:
  "hasGoodSymmetry (clinicalPositioning (analyzeAnatomicalStructure pixels w h))
     = (calculateBilateralSymmetry pixels w h > 0.7)"
  and structural_aspect:
  "aspectRatio (analyzeAnatomicalStructure pixels w h) = js_div (real w) (real h)"
  by (simp_all add: analyzeAnatomicalStructure_def Let_def case_prod_beta)

lemma texture_fields:
  "roughness (performTextureAnalysis pixels w h)
     = (if snd (snd (textureScan 2 pixels w h)) > 0
        then fst (textureScan 2 pixels w h) / real (snd (snd (textureScan 2 pixels w h))) else 0)"
  "localVariance (performTextureAnalysis pixels w h)
     = (if snd (snd (textureScan 2 pixels w h)) > 0
        then fst (snd (textureScan 2 pixels w h)) / real (snd (snd (textureScan 2 pixels w h))) else 0)"
  "clinicalTexture (performTextureAnalysis pixels w h) =
     \<lparr> isSmooth = (roughness (performTextureAnalysis pixels w h) < 30),
       isNormal = (roughness (performTextureAnalysis pixels w h) \<ge> 30
                   \<and> roughness (performTextureAnalysis pixels w h) \<le> 60),
       isComplex = (roughness (performTextureAnalysis pixels w h) > 60),
       hasArtifacts = (localVariance (performTextureAnalysis pixels w h) > 120),
       isHighQuality = (localVariance (performTextureAnalysis pixels w h) < 60
                   \<and> uniformity (performTextureAnalysis pixels w h) > 0.6) \<rparr>"
  "(''noisy'' \<in> set (patterns (performTextureAnalysis pixels w h)))
     = (localVariance (performTextureAnalysis pixels w h) > 120)"
  by (simp_all add: performTextureAnalysis_def Let_def case_prod_beta)

lemma textureScan_small: "h \<le> 4 \<Longrightarrow> textureScan stride pixels w h = (0, 0, 0)"
  by (simp add: textureScan_def forLoop_done)

lemma no_keyword: "analyzeMedicalFilename ''photo.png'' =
  [(''chest'', \<lparr> fs_score = 0,
         fs_conditions = [''pneumonia'', ''atelectasis'', ''cardiomegaly'', ''pleural_effusion''] \<rparr>),
      (''brain'', \<lparr> fs_score = 0,
         fs_conditions = [''normal'', ''stroke'', ''tumor'', ''hemorrhage''] \<rparr>),
      (''ct'', \<lparr> fs_score = 0,
         fs_conditions = [''normal'', ''abnormal'', ''mass'', ''inflammation''] \<rparr>),
      (''bone'', \<lparr> fs_score = 0,
         fs_conditions = [''normal'', ''fracture'', ''arthritis'', ''osteoporosis''] \<rparr>)]"
  by (simp add: analyzeMedicalFilename_def regexTest_def chestWords_def brainWords_def ctWords_def
      boneWords_def toLowerAscii_def)

lemma grey_bs: "pixelBrightness greyPixel = [90]"
  by (simp add: greyPixel_def pixelBrightness_Cons pixelBrightness_Nil)

lemma grey_rgba: "rgba greyPixel"
  by (simp add: greyPixel_def rgba_def)

lemma grey_visual:
  "brightness (performAdvancedVisualAnalysis greyPixel w h) = Fin 90"
  "darkRatio (performAdvancedVisualAnalysis greyPixel w h) = Fin 0"
  "brightRatio (performAdvancedVisualAnalysis greyPixel w h) = Fin 0"
  "mediumRatio (performAdvancedVisualAnalysis greyPixel w h) = Fin 1"
  "edgeDensity (performAdvancedVisualAnalysis greyPixel w h) = Fin 0"
  "contrast (performAdvancedVisualAnalysis greyPixel w h) = 0"
  by (simp_all add: visual_fields [OF grey_rgba] grey_bs js_div_def fl64_values contrastOf_def)

lemma bilateral_narrow: "w < 2 \<Longrightarrow> calculateBilateralSymmetry pixels w h = 0"
proof -
  assume "w < 2"
  then have c: "w div 2 = 0" by simp
  have "bilateralScan 2 pixels w h = (0, 0)"
    unfolding bilateralScan_def Let_def c
    by (rule forLoop_inv [where P = "\<lambda>s. s = (0, 0)"]) (simp_all add: forLoop_done)
  then show ?thesis by (simp add: calculateBilateralSymmetry_def symmetryResult_def)
qed

lemma grey_clinical: "performClinicalClassification greyPixel 1 1 = zeroScores"
  by (simp add: performClinicalClassification_def clinicalRules_def Let_def visual_flags grey_visual
      structural_flags structural_symmetry texture_fields textureScan_small js_div_def fl64_values
      bilateral_narrow zeroScores_def del: One_nat_def)

lemma grey_pathology:
  "topPathologies (detectPathologies greyPixel w h (performAdvancedVisualAnalysis greyPixel w h)) = []"
  "hasPathology (detectPathologies greyPixel w h (performAdvancedVisualAnalysis greyPixel w h)) = False"
  by (simp_all add: detectPathologies_def pathologyScores_def Let_def visual_indicators grey_visual)

lemma grey_scores:
  "clinicalScores (clinicalAnalyses greyPixel ''photo.png'' 1 1) = zeroScores"
  by (simp add: clinicalScores_def clinicalAnalyses_def Let_def no_keyword grey_clinical grey_pathology
      filenameStep_def addScore_def zeroScores_def del: One_nat_def)

lemma contrastOf_gtI:
  "bs \<noteq> [] \<Longrightarrow> 0 \<le> c \<Longrightarrow> c < 1 \<Longrightarrow>
   (128 * c)\<^sup>2 * (real (length bs))\<^sup>2
     < real (length bs) * (\<Sum>b\<leftarrow>bs. (real b)\<^sup>2) - (real (sum_list bs))\<^sup>2 \<Longrightarrow>
   c < contrastOf bs"
  using contrastOf_gt [of bs c] by blast

lemma dark_bs: "pixelBrightness darkImage = [0, 210, 0, 0, 210, 0]"
  by (simp add: darkImage_def pixelBrightness_Cons pixelBrightness_Nil)

lemma dark_rgba: "rgba darkImage"
  by (simp add: darkImage_def rgba_def)

lemma dark_edges: "length (filter (edgeAt 30 darkImage) [0..<5]) = 4"
  unfolding edgeAt_def darkImage_def by code_simp

lemma dark_edgeDensity:
  "edgeDensity (performAdvancedVisualAnalysis darkImage w h) = Fin (fl64 (2 / 3))"
proof -
  have "length (pixelBrightness darkImage) - 1 = 5" by (simp add: dark_bs)
  then have "length (filter (edgeAt 30 darkImage) [0..<length (pixelBrightness darkImage) - 1]) = 4"
    by (simp only: dark_edges)
  then show ?thesis
    unfolding visual_fields(5) [OF dark_rgba] by (simp add: dark_bs js_div_def fl64_values)
qed

lemma dark_visual:
  "brightness (performAdvancedVisualAnalysis darkImage w h) = Fin 70"
  "darkRatio (performAdvancedVisualAnalysis darkImage w h) = Fin (fl64 (2 / 3))"
  "brightRatio (performAdvancedVisualAnalysis darkImage w h) = Fin (fl64 (1 / 3))"
  "mediumRatio (performAdvancedVisualAnalysis darkImage w h) = Fin 0"
  by (simp_all add: visual_fields [OF dark_rgba] dark_bs js_div_def fl64_values)

lemma dark_contrast:
  "contrast (performAdvancedVisualAnalysis darkImage w h) > 0.7"
  unfolding visual_fields(6) [OF dark_rgba] dark_bs by (rule contrastOf_gtI) (simp_all add: power2_eq_square)

lemma speckled_bs: "pixelBrightness speckledImage =
  [255, 0, 255, 0, 255, 0, 255,
   255, 0, 0, 0, 0, 0, 255,
   0, 0, 255, 0, 255, 0, 0,
   255, 0, 0, 0, 0, 0, 0,
   255, 0, 255, 0, 255, 0, 255]"
  by (simp add: speckledImage_def pixelBrightness_Cons pixelBrightness_Nil)

lemma speckled_rgba: "rgba speckledImage"
  by (simp add: speckledImage_def rgba_def)

lemma speckled_edges: "length (filter (edgeAt 30 speckledImage) [0..<34]) = 22"
  unfolding edgeAt_def speckledImage_def by code_simp

lemma speckled_edgeDensity:
  "edgeDensity (performAdvancedVisualAnalysis speckledImage w h) = Fin (fl64 (22 / 35))"
proof -
  have "length (pixelBrightness speckledImage) - 1 = 34" by (simp add: speckled_bs)
  then have "length (filter (edgeAt 30 speckledImage) [0..<length (pixelBrightness speckledImage) - 1]) = 22"
    by (simp only: speckled_edges)
  then show ?thesis
    unfolding visual_fields(5) [OF speckled_rgba] by (simp add: speckled_bs js_div_def fl64_values)
qed

lemma speckled_visual:
  "brightness (performAdvancedVisualAnalysis speckledImage w h) = Fin (fl64 (663 / 7))"
  "darkRatio (performAdvancedVisualAnalysis speckledImage w h) = Fin (fl64 (22 / 35))"
  "brightRatio (performAdvancedVisualAnalysis speckledImage w h) = Fin (fl64 (13 / 35))"
  "mediumRatio (performAdvancedVisualAnalysis speckledImage w h) = Fin 0"
  by (simp_all add: visual_fields [OF speckled_rgba] speckled_bs js_div_def fl64_values)

lemma speckled_contrast:
  "contrast (performAdvancedVisualAnalysis speckledImage w h) > 0.7"
  unfolding visual_fields(6) [OF speckled_rgba] speckled_bs by (rule contrastOf_gtI) (simp_all add: power2_eq_square)

lemma speckled_neighbors_left: "neighborScan speckledImage 7 2 2 = (2040, [255, 255, 255, 255, 255, 255, 255, 255])"
  by (simp add: neighborScan_def neighborStep_def neighbors_def rgbSum_def speckledImage_def)

lemma speckled_neighbors_right: "neighborScan speckledImage 7 4 2 = (2040, [255, 255, 255, 255, 255, 255, 255, 255])"
  by (simp add: neighborScan_def neighborStep_def neighbors_def rgbSum_def speckledImage_def)

lemma speckled_length: "length speckledImage = 140"
  by (simp add: speckledImage_def)

lemma speckled_texture: "textureScan 2 speckledImage 7 5 = (510, 0, 2)"
  by (simp add: textureScan_def forLoop_step forLoop_done textureStep_def speckled_neighbors_left speckled_neighbors_right speckled_length neighbors_def)

section \<open>The pathology scores of a normal chest\<close>

lemma normal_scores:
  assumes "js_gt (darkRatio (performAdvancedVisualAnalysis pixels w h)) 0.6"
    and "js_lt (darkRatio (performAdvancedVisualAnalysis pixels w h)) 0.8"
    and "contrast (performAdvancedVisualAnalysis pixels w h) > 0.3"
  shows "\<exists>A C N. pathologyScores (performAdvancedVisualAnalysis pixels w h) =
     [(Pneumonia, 0), (Atelectasis, if A then 0.8 else 0), (Cardiomegaly, if C then 0.75 else 0),
      (PleuralEffusion, 0), (Pneumothorax, 0), (Consolidation, if A then 0.5 else 0), (Edema, 0),
      (Emphysema, 0), (Fibrosis, 0), (Nodule, if N then 0.6 else 0), (Mass, if N then 0.4 else 0),
      (Infiltration, 0), (Stroke, 0), (Tumor, 0), (Hemorrhage, 0), (Normal, 0.9)]"
proof -
  let ?va = "performAdvancedVisualAnalysis pixels w h"
  obtain d where d: "darkRatio ?va = Fin d" "0.6 < d" "d < 0.8"
    using assms(1,2) by (cases "darkRatio ?va") auto
  define A where "A = (0.7 < d \<and> js_gt (edgeDensity ?va) 0.3)"
  define C where "C = (js_gt (mediumRatio ?va) 0.4 \<and> js_gt (brightness ?va) 100)"
  define N where "N = (contrast ?va > 0.7 \<and> js_gt (edgeDensity ?va) 0.5)"
  have ind: "pathologyIndicators ?va =
     \<lparr> ind_pneumonia = False, ind_atelectasis = A, ind_cardiomegaly = C,
       ind_pleural_effusion = False, ind_normal_chest = True \<rparr>"
    unfolding visual_indicators d A_def C_def using d(2,3) assms(3) by simp
  have "pathologyScores ?va =
     [(Pneumonia, 0), (Atelectasis, if A then 0.8 else 0), (Cardiomegaly, if C then 0.75 else 0),
      (PleuralEffusion, 0), (Pneumothorax, 0), (Consolidation, if A then 0.5 else 0), (Edema, 0),
      (Emphysema, 0), (Fibrosis, 0), (Nodule, if N then 0.6 else 0), (Mass, if N then 0.4 else 0),
      (Infiltration, 0), (Stroke, 0), (Tumor, 0), (Hemorrhage, 0), (Normal, 0.9)]"
    unfolding pathologyScores_def Let_def ind d N_def [symmetric]
    using d(2,3) by (simp add: setScore_def)
  then show ?thesis by blast
qed

lemma normal_top_of_scores:
  "\<exists>rest. take 5 (sort_key (\<lambda>(_, s). - s) (filter (\<lambda>(_, s). s > 0.3)
     [(Pneumonia, 0), (Atelectasis, if A then 0.8 else 0), (Cardiomegaly, if C then 0.75 else 0),
      (PleuralEffusion, 0), (Pneumothorax, 0), (Consolidation, if A then 0.5 else 0), (Edema, 0),
      (Emphysema, 0), (Fibrosis, 0), (Nodule, if N then 0.6 else 0), (Mass, if N then 0.4 else 0),
      (Infiltration, 0), (Stroke, 0), (Tumor, 0), (Hemorrhage, 0), (Normal, 0.9::real)]))
   = (Normal, 0.9) # rest"
  by (cases A; cases C; cases N) simp_all

lemma normal_top:
  assumes "js_gt (darkRatio (performAdvancedVisualAnalysis pixels w h)) 0.6"
    and "js_lt (darkRatio (performAdvancedVisualAnalysis pixels w h)) 0.8"
    and "contrast (performAdvancedVisualAnalysis pixels w h) > 0.3"
  shows "map_of (pathologies (detectPathologies pixels w h (performAdvancedVisualAnalysis pixels w h)))
           Normal = Some 0.9"
    and "\<exists>rest. topPathologies (detectPathologies pixels w h (performAdvancedVisualAnalysis pixels w h))
           = (Normal, 0.9) # rest"
    and "hasPathology (detectPathologies pixels w h (performAdvancedVisualAnalysis pixels w h))"
proof -
  let ?va = "performAdvancedVisualAnalysis pixels w h"
  obtain A C N where ps: "pathologyScores ?va =
     [(Pneumonia, 0), (Atelectasis, if A then 0.8 else 0), (Cardiomegaly, if C then 0.75 else 0),
      (PleuralEffusion, 0), (Pneumothorax, 0), (Consolidation, if A then 0.5 else 0), (Edema, 0),
      (Emphysema, 0), (Fibrosis, 0), (Nodule, if N then 0.6 else 0), (Mass, if N then 0.4 else 0),
      (Infiltration, 0), (Stroke, 0), (Tumor, 0), (Hemorrhage, 0), (Normal, 0.9)]"
    using normal_scores [OF assms] by blast
  obtain rest where top: "take 5 (sort_key (\<lambda>(_, s). - s) (filter (\<lambda>(_, s). s > 0.3)
      (pathologyScores ?va))) = (Normal, 0.9) # rest"
    unfolding ps using normal_top_of_scores [of A C N] by blast
  have t: "topPathologies (detectPathologies pixels w h ?va)
      = take 5 (sort_key (\<lambda>(_, s). - s) (filter (\<lambda>(_, s). s > 0.3) (pathologyScores ?va)))"
    unfolding detectPathologies_def Let_def by (simp only: PathologyDetection.select_convs)
  have h: "hasPathology (detectPathologies pixels w h ?va)
      = (length (take 5 (sort_key (\<lambda>(_, s). - s) (filter (\<lambda>(_, s). s > 0.3) (pathologyScores ?va)))) > 0
         \<and> snd (take 5 (sort_key (\<lambda>(_, s). - s) (filter (\<lambda>(_, s). s > 0.3) (pathologyScores ?va))) ! 0) > 0.5)"
    unfolding detectPathologies_def Let_def by (simp only: PathologyDetection.select_convs)
  have p: "pathologies (detectPathologies pixels w h ?va) = pathologyScores ?va"
    unfolding detectPathologies_def Let_def by (simp only: PathologyDetection.select_convs)
  show "map_of (pathologies (detectPathologies pixels w h ?va)) Normal = Some 0.9"
    unfolding p ps by simp
  show "\<exists>rest. topPathologies (detectPathologies pixels w h ?va) = (Normal, 0.9) # rest"
    unfolding t top by simp
  show "hasPathology (detectPathologies pixels w h ?va)"
    unfolding h top by simp
qed

section \<open>The ensemble scores when the chest hypotheses hold\<close>

lemma no_keyword_scores:
  assumes "\<not> regexTest chestWords name" and "\<not> regexTest brainWords name"
    and "\<not> regexTest ctWords name" and "\<not> regexTest boneWords name"
  shows "fold filenameStep (analyzeMedicalFilename name) zeroScores = zeroScores"
  using assms
  by (simp add: analyzeMedicalFilename_def filenameStep_def addScore_def zeroScores_def)

lemma photo_no_keyword:
  "\<not> regexTest chestWords ''photo.png''" "\<not> regexTest brainWords ''photo.png''"
  "\<not> regexTest ctWords ''photo.png''" "\<not> regexTest boneWords ''photo.png''"
  by (simp_all add: regexTest_def chestWords_def brainWords_def ctWords_def boneWords_def
      toLowerAscii_def)

lemma rules_under_hypotheses:
  assumes "js_gt (aspectRatio (analyzeAnatomicalStructure pixels w h)) 1.2"
    and "js_lt (aspectRatio (analyzeAnatomicalStructure pixels w h)) 1.8"
    and "contrast (performAdvancedVisualAnalysis pixels w h) > 0.3"
    and "js_gt (edgeDensity (performAdvancedVisualAnalysis pixels w h)) 0.25"
  shows "performClinicalClassification pixels w h =
     [(ChestXray, if js_lt (brightness (performAdvancedVisualAnalysis pixels w h)) 80
                     \<and> contrast (performAdvancedVisualAnalysis pixels w h) > 0.6 then 0.95 else 0),
      (BrainMri, 0), (CtScan, 0), (Ultrasound, 0),
      (BoneXray, if contrast (performAdvancedVisualAnalysis pixels w h) > 0.6
                    \<and> js_gt (brightRatio (performAdvancedVisualAnalysis pixels w h)) 0.15
                    \<and> roughness (performTextureAnalysis pixels w h) > 60 then 0.88 else 0),
      (AbdominalCt, 0), (Mammography, 0), (DentalXray, 0), (SpineXray, 0)]"
proof -
  obtain r where r: "js_div (real w) (real h) = Fin r" "1.2 < r" "r < 1.8"
    using assms(1,2) unfolding structural_aspect by (cases "js_div (real w) (real h)") auto
  show ?thesis
    unfolding performClinicalClassification_def clinicalRules_def Let_def visual_flags
      structural_flags structural_symmetry texture_fields(3,4) r
    using r(2,3) assms(3,4) by (simp add: setScore_def)
qed

lemma scores_under_hypotheses:
  assumes "\<not> regexTest chestWords name" and "\<not> regexTest brainWords name"
    and "\<not> regexTest ctWords name" and "\<not> regexTest boneWords name"
    and "js_gt (darkRatio (performAdvancedVisualAnalysis pixels w h)) 0.6"
    and "js_lt (darkRatio (performAdvancedVisualAnalysis pixels w h)) 0.8"
    and "contrast (performAdvancedVisualAnalysis pixels w h) > 0.3"
    and "js_gt (aspectRatio (analyzeAnatomicalStructure pixels w h)) 1.2"
    and "js_lt (aspectRatio (analyzeAnatomicalStructure pixels w h)) 1.8"
    and "js_gt (edgeDensity (performAdvancedVisualAnalysis pixels w h)) 0.25"
  shows "clinicalScores (clinicalAnalyses pixels name w h) =
     [(ChestXray, if js_lt (brightness (performAdvancedVisualAnalysis pixels w h)) 80
                     \<and> contrast (performAdvancedVisualAnalysis pixels w h) > 0.6 then 0.57 else 0),
      (BrainMri, 0), (CtScan, 0), (Ultrasound, 0),
      (BoneXray, if contrast (performAdvancedVisualAnalysis pixels w h) > 0.6
                    \<and> js_gt (brightRatio (performAdvancedVisualAnalysis pixels w h)) 0.15
                    \<and> roughness (performTextureAnalysis pixels w h) > 60 then 0.528 else 0),
      (AbdominalCt, 0), (Mammography, 0), (DentalXray, 0), (SpineXray, 0)]"
proof -
  let ?va = "performAdvancedVisualAnalysis pixels w h"
  let ?pd = "detectPathologies pixels w h ?va"
  obtain rest where top: "topPathologies ?pd = (Normal, 0.9) # rest"
    using normal_top(2) [OF assms(5,6,7)] by blast
  have hp: "hasPathology ?pd" by (rule normal_top(3) [OF assms(5,6,7)])
  have f: "fold filenameStep (analyzeMedicalFilename name) zeroScores = zeroScores"
    by (rule no_keyword_scores [OF assms(1-4)])
  have a: "a_filename (clinicalAnalyses pixels name w h) = analyzeMedicalFilename name"
    "a_clinical (clinicalAnalyses pixels name w h) = performClinicalClassification pixels w h"
    "a_pathology (clinicalAnalyses pixels name w h) = ?pd"
    by (simp_all add: clinicalAnalyses_def Let_def)
  show ?thesis
    unfolding clinicalScores_def Let_def a zeroScores_def [symmetric] f top hp
      rules_under_hypotheses [OF assms(8,9,7,10)]
    by (simp add: zeroScores_def addScore_def chestConditions_def)
qed

lemma speckled_type:
  "c_type (classifyMedicalImageClinical (clinicalAnalyses speckledImage ''photo.png'' 7 5))
     = Known BoneXray"
proof -
  have tex: "roughness (performTextureAnalysis speckledImage 7 5) = 255"
    by (simp add: texture_fields(1) speckled_texture)
  have asp: "aspectRatio (analyzeAnatomicalStructure speckledImage 7 5) = Fin (fl64 (7 / 5))"
    by (simp add: structural_aspect js_div_def fl64_values)
  have s: "clinicalScores (clinicalAnalyses speckledImage ''photo.png'' 7 5) =
     [(ChestXray, 0), (BrainMri, 0), (CtScan, 0), (Ultrasound, 0), (BoneXray, 0.528),
      (AbdominalCt, 0), (Mammography, 0), (DentalXray, 0), (SpineXray, 0)]"
    using speckled_contrast [of 7 5]
    by (subst scores_under_hypotheses)
       (simp_all add: photo_no_keyword speckled_visual speckled_edgeDensity asp tex fl64_values)
  show ?thesis
    unfolding classifyMedicalImageClinical_def Let_def s
    by (simp add: maxOf_def selectType_def)
qed

section \<open>Claims\<close>



text \<open>
  C4. The confidence reported by the ensemble classifier is
  \<open>min (maxScore * 100) cap\<close> raised to the floor, and lies in \<open>[80, 97]\<close>
  for the clinical profile and in \<open>[75, 98]\<close> for the second profile, for
  every input of the classifier; the rounded confidence of the final clinical
  result lies in \<open>[80, 97]\<close> as well.
\<close>

theorem confidence_in_band:
  "c_confidence (classifyMedicalImageClinical a)
     = max (min (maxOf (map snd (clinicalScores a)) * 100) 97) 80
   \<and> 80 \<le> c_confidence (classifyMedicalImageClinical a)
   \<and> c_confidence (classifyMedicalImageClinical a) \<le> 97
   \<and> pc_confidence (classifyMedicalImagePerfect pa)
     = max (min (maxOf (map snd (perfectScores pa)) * 100) 98) 75
   \<and> 75 \<le> pc_confidence (classifyMedicalImagePerfect pa)
   \<and> pc_confidence (classifyMedicalImagePerfect pa) \<le> 98
   \<and> 80 \<le> res_confidence (performClinicalImageAnalysis pixels name w h)
   \<and> res_confidence (performClinicalImageAnalysis pixels name w h) \<le> 97"
proof -
  have r: "80 \<le> x \<Longrightarrow> x \<le> 97 \<Longrightarrow> 80 \<le> js_round x \<and> js_round x \<le> 97" for x
    unfolding js_round_def by linarith
  have c: "80 \<le> c_confidence (classifyMedicalImageClinical b)
      \<and> c_confidence (classifyMedicalImageClinical b) \<le> 97" for b
    by (simp add: classifyMedicalImageClinical_def Let_def)
  have g: "res_confidence (generateClinicalDiagnosis cl nm) = js_round (c_confidence cl)" for cl nm
    by (simp add: generateClinicalDiagnosis_def Let_def split: imageType.splits modality.splits)
  have "80 \<le> res_confidence (performClinicalImageAnalysis pixels name w h)
      \<and> res_confidence (performClinicalImageAnalysis pixels name w h) \<le> 97"
    unfolding performClinicalImageAnalysis_def Let_def g using c r by blast
  moreover have "pc_confidence (classifyMedicalImagePerfect pa)
        = max (min (maxOf (map snd (perfectScores pa)) * 100) 98) 75"
    by (simp add: classifyMedicalImagePerfect_def Let_def)
  moreover have "c_confidence (classifyMedicalImageClinical a)
        = max (min (maxOf (map snd (clinicalScores a)) * 100) 97) 80"
    by (simp add: classifyMedicalImageClinical_def Let_def)
  ultimately show ?thesis by simp
qed

text \<open>
  C6. Claim: for every non-empty RGBA buffer
  \<open>darkRatio + brightRatio + mediumRatio = 1\<close>. Every pixel is counted in
  exactly one band, but each ratio is a double and so is each sum: for the
  3 by 2 image with one dark, four bright and one medium pixel the ratios are
  the doubles nearest to \<open>1 / 6\<close>, \<open>2 / 3\<close> and \<open>1 / 6\<close>; their
  exact sum is \<open>1 - 2\<^sup>-\<^sup>5\<^sup>4\<close> and their sum in double arithmetic is
  \<open>1 - 2\<^sup>-\<^sup>5\<^sup>3\<close> (printed \<open>0.9999999999999999\<close>), not \<open>1\<close>.
\<close>

theorem band_ratios_sum_below_one_counterexample:
  "rgba bandImage \<and> bandImage \<noteq> []
   \<and> darkRatio (performAdvancedVisualAnalysis bandImage 3 2)
       = Fin (6004799503160661 / 36028797018963968)
   \<and> brightRatio (performAdvancedVisualAnalysis bandImage 3 2)
       = Fin (6004799503160661 / 9007199254740992)
   \<and> mediumRatio (performAdvancedVisualAnalysis bandImage 3 2)
       = Fin (6004799503160661 / 36028797018963968)
   \<and> (6004799503160661 / 36028797018963968 + 6004799503160661 / 9007199254740992
        + 6004799503160661 / 36028797018963968 :: real) = 1 - 1 / 2 ^ 54
   \<and> js_add (js_add (darkRatio (performAdvancedVisualAnalysis bandImage 3 2))
                     (brightRatio (performAdvancedVisualAnalysis bandImage 3 2)))
             (mediumRatio (performAdvancedVisualAnalysis bandImage 3 2))
       = Fin (1 - 1 / 2 ^ 53)
   \<and> js_add (js_add (darkRatio (performAdvancedVisualAnalysis bandImage 3 2))
                     (brightRatio (performAdvancedVisualAnalysis bandImage 3 2)))
             (mediumRatio (performAdvancedVisualAnalysis bandImage 3 2))
       \<noteq> Fin 1"
proof -
  have r: "rgba bandImage" by (simp add: bandImage_def rgba_def)
  have bs: "pixelBrightness bandImage = [0, 255, 255, 255, 255, 100]"
    by (simp add: bandImage_def pixelBrightness_Cons pixelBrightness_Nil)
  have v: "darkRatio (performAdvancedVisualAnalysis bandImage 3 2)
      = Fin (6004799503160661 / 36028797018963968)"
    "brightRatio (performAdvancedVisualAnalysis bandImage 3 2)
      = Fin (6004799503160661 / 9007199254740992)"
    "mediumRatio (performAdvancedVisualAnalysis bandImage 3 2)
      = Fin (6004799503160661 / 36028797018963968)"
    by (simp_all add: visual_fields [OF r] bs js_div_def fl64_one_sixth fl64_two_thirds)
  have s: "js_add (js_add (Fin (6004799503160661 / 36028797018963968))
                          (Fin (6004799503160661 / 9007199254740992)))
                  (Fin (6004799503160661 / 36028797018963968))
      = Fin (1 - 1 / 2 ^ 53)"
    by (simp add: fl64_band_partial fl64_band_total)
  show ?thesis unfolding v s using r by (simp add: bandImage_def)
qed

text \<open>
  C6, amended. For every non-empty RGBA buffer the three band counts add up
  to the number of pixels, the three band ratios are finite, their exact sum
  differs from \<open>1\<close> by at most \<open>2\<^sup>-\<^sup>5\<^sup>3\<close>, and their sum in double
  arithmetic differs from \<open>1\<close> by at most \<open>2\<^sup>-\<^sup>5\<^sup>1\<close>; in both profiles.
\<close>

theorem band_ratios_sum_within_rounding:
  assumes "rgba pixels" and "pixels \<noteq> []"
  shows "darkPixels (visualScan 50 30 pixels) + brightPixels (visualScan 50 30 pixels)
           + mediumPixels (visualScan 50 30 pixels) = length pixels div 4
       \<and> (\<exists>d b m t. darkRatio (performAdvancedVisualAnalysis pixels w h) = Fin d
            \<and> brightRatio (performAdvancedVisualAnalysis pixels w h) = Fin b
            \<and> mediumRatio (performAdvancedVisualAnalysis pixels w h) = Fin m
            \<and> \<bar>d + b + m - 1\<bar> \<le> 1 / 2 ^ 53
            \<and> js_add (js_add (darkRatio (performAdvancedVisualAnalysis pixels w h))
                              (brightRatio (performAdvancedVisualAnalysis pixels w h)))
                      (mediumRatio (performAdvancedVisualAnalysis pixels w h)) = Fin t
            \<and> \<bar>t - 1\<bar> \<le> 1 / 2 ^ 51)
       \<and> darkPixels (visualScan 60 25 pixels) + brightPixels (visualScan 60 25 pixels)
           + mediumPixels (visualScan 60 25 pixels) = length pixels div 4
       \<and> (\<exists>d b m t. p_darkRatio (analyzeVisualCharacteristicsPerfect pixels w h) = Fin d
            \<and> p_brightRatio (analyzeVisualCharacteristicsPerfect pixels w h) = Fin b
            \<and> p_mediumRatio (analyzeVisualCharacteristicsPerfect pixels w h) = Fin m
            \<and> \<bar>d + b + m - 1\<bar> \<le> 1 / 2 ^ 53
            \<and> js_add (js_add (p_darkRatio (analyzeVisualCharacteristicsPerfect pixels w h))
                              (p_brightRatio (analyzeVisualCharacteristicsPerfect pixels w h)))
                      (p_mediumRatio (analyzeVisualCharacteristicsPerfect pixels w h)) = Fin t
            \<and> \<bar>t - 1\<bar> \<le> 1 / 2 ^ 51)"
proof -
  let ?n = "length pixels div 4"
  let ?bs = "pixelBrightness pixels"
  have "real (length pixels) = real (4 * ?n)" using rgba_len [OF assms(1)] by simp
  then have n1: "real (length pixels) / 4 = real ?n" by simp
  have "length pixels > 0" using assms(2) by simp
  then have n2: "0 < ?n" using rgba_len [OF assms(1)] by linarith
  have s: "visualScan t e pixels = visualSpec t e pixels ?n" for t e
    by (rule visualScan_spec [OF assms(1)])
  have cp: "darkPixels (visualSpec t e pixels ?n) + brightPixels (visualSpec t e pixels ?n)
        + mediumPixels (visualSpec t e pixels ?n) = ?n" for t e
    using count_partition [of t ?bs] by (simp add: visualSpec_def length_pixelBrightness)
  have sums: "\<bar>fl64 (real (darkPixels (visualSpec t e pixels ?n)) / real ?n)
          + fl64 (real (brightPixels (visualSpec t e pixels ?n)) / real ?n)
          + fl64 (real (mediumPixels (visualSpec t e pixels ?n)) / real ?n) - 1\<bar> \<le> 1 / 2 ^ 53
      \<and> \<bar>fl64 (fl64 (fl64 (real (darkPixels (visualSpec t e pixels ?n)) / real ?n)
                       + fl64 (real (brightPixels (visualSpec t e pixels ?n)) / real ?n))
                + fl64 (real (mediumPixels (visualSpec t e pixels ?n)) / real ?n)) - 1\<bar>
          \<le> 1 / 2 ^ 51" for t e
    using ratio_sum_bounds [OF cp n2] by blast
  have c: "\<exists>d b m t. darkRatio (performAdvancedVisualAnalysis pixels w h) = Fin d
            \<and> brightRatio (performAdvancedVisualAnalysis pixels w h) = Fin b
            \<and> mediumRatio (performAdvancedVisualAnalysis pixels w h) = Fin m
            \<and> \<bar>d + b + m - 1\<bar> \<le> 1 / 2 ^ 53
            \<and> js_add (js_add (darkRatio (performAdvancedVisualAnalysis pixels w h))
                              (brightRatio (performAdvancedVisualAnalysis pixels w h)))
                      (mediumRatio (performAdvancedVisualAnalysis pixels w h)) = Fin t
            \<and> \<bar>t - 1\<bar> \<le> 1 / 2 ^ 51"
    using n2 sums [of 50 30]
    by (simp add: performAdvancedVisualAnalysis_def Let_def s n1 js_div_def)
  have p: "\<exists>d b m t. p_darkRatio (analyzeVisualCharacteristicsPerfect pixels w h) = Fin d
            \<and> p_brightRatio (analyzeVisualCharacteristicsPerfect pixels w h) = Fin b
            \<and> p_mediumRatio (analyzeVisualCharacteristicsPerfect pixels w h) = Fin m
            \<and> \<bar>d + b + m - 1\<bar> \<le> 1 / 2 ^ 53
            \<and> js_add (js_add (p_darkRatio (analyzeVisualCharacteristicsPerfect pixels w h))
                              (p_brightRatio (analyzeVisualCharacteristicsPerfect pixels w h)))
                      (p_mediumRatio (analyzeVisualCharacteristicsPerfect pixels w h)) = Fin t
            \<and> \<bar>t - 1\<bar> \<le> 1 / 2 ^ 51"
    using n2 sums [of 60 25]
    by (simp add: analyzeVisualCharacteristicsPerfect_def Let_def s n1 js_div_def)
  show ?thesis using c p cp [of 50 30] cp [of 60 25] unfolding s by blast
qed

theorem band_ratios_sum_within_rounding_witness:
  "rgba bandImage \<and> bandImage \<noteq> []
   \<and> darkPixels (visualScan 50 30 bandImage) + brightPixels (visualScan 50 30 bandImage)
           + mediumPixels (visualScan 50 30 bandImage) = length bandImage div 4
   \<and> (\<exists>d b m t. darkRatio (performAdvancedVisualAnalysis bandImage 3 2) = Fin d
            \<and> brightRatio (performAdvancedVisualAnalysis bandImage 3 2) = Fin b
            \<and> mediumRatio (performAdvancedVisualAnalysis bandImage 3 2) = Fin m
            \<and> \<bar>d + b + m - 1\<bar> \<le> 1 / 2 ^ 53
            \<and> js_add (js_add (darkRatio (performAdvancedVisualAnalysis bandImage 3 2))
                              (brightRatio (performAdvancedVisualAnalysis bandImage 3 2)))
                      (mediumRatio (performAdvancedVisualAnalysis bandImage 3 2)) = Fin t
            \<and> \<bar>t - 1\<bar> \<le> 1 / 2 ^ 51)"
proof -
  have r: "rgba bandImage" by (simp add: bandImage_def rgba_def)
  have n: "bandImage \<noteq> []" by (simp add: bandImage_def)
  show ?thesis using r n band_ratios_sum_within_rounding [OF r n, of 3 2] by blast
qed

text \<open>
  C7. For every buffer the contrast, the bilateral symmetry, the vertical
  symmetry, the uniformity and the texture complexity lie in \<open>[0, 1]\<close>.
  (The RGBA buffers are the byte lists whose length is a multiple of four;
  the bounds hold for every byte list.)
\<close>

theorem features_in_unit_interval:
  "0 \<le> contrast (performAdvancedVisualAnalysis pixels w h)
   \<and> contrast (performAdvancedVisualAnalysis pixels w h) \<le> 1
   \<and> 0 \<le> bilateralSymmetry (analyzeAnatomicalStructure pixels w h)
   \<and> bilateralSymmetry (analyzeAnatomicalStructure pixels w h) \<le> 1
   \<and> 0 \<le> verticalSymmetry (analyzeAnatomicalStructure pixels w h)
   \<and> verticalSymmetry (analyzeAnatomicalStructure pixels w h) \<le> 1
   \<and> 0 \<le> uniformity (performTextureAnalysis pixels w h)
   \<and> uniformity (performTextureAnalysis pixels w h) \<le> 1
   \<and> 0 \<le> textureComplexity (performTextureAnalysis pixels w h)
   \<and> textureComplexity (performTextureAnalysis pixels w h) \<le> 1"
proof -
  have c: "contrast (performAdvancedVisualAnalysis pixels w h)
      = calculateClinicalContrast (histogramAcc (visualScan 50 30 pixels))"
    by (simp add: performAdvancedVisualAnalysis_def Let_def)
  have b: "bilateralSymmetry (analyzeAnatomicalStructure pixels w h)
      = symmetryResult (bilateralScan 2 pixels w h)"
    by (simp add: analyzeAnatomicalStructure_def Let_def case_prod_beta calculateBilateralSymmetry_def)
  have v: "verticalSymmetry (analyzeAnatomicalStructure pixels w h)
      = symmetryResult (verticalScan 2 pixels w h)"
    by (simp add: analyzeAnatomicalStructure_def Let_def case_prod_beta calculateVerticalSymmetry_def)
  obtain r l n where t: "textureScan 2 pixels w h = (r, l, n)" by (cases "textureScan 2 pixels w h")
  then have rl: "0 \<le> r" "0 \<le> l" using textureScan_nonneg [of 2 pixels w h] by (simp_all add: texNonneg_def)
  have u: "0 \<le> uniformity (performTextureAnalysis pixels w h)
      \<and> uniformity (performTextureAnalysis pixels w h) \<le> 1"
    using rl by (simp add: performTextureAnalysis_def t Let_def)
  have x: "0 \<le> textureComplexity (performTextureAnalysis pixels w h)
      \<and> textureComplexity (performTextureAnalysis pixels w h) \<le> 1"
    using rl by (simp add: performTextureAnalysis_def t Let_def)
  show ?thesis
    unfolding c b v
    using contrast_bounded [of "histogramAcc (visualScan 50 30 pixels)"]
      symmetryResult_bounded [OF bilateralScan_bounded, of 2 pixels w h]
      symmetryResult_bounded [OF verticalScan_bounded, of 2 pixels w h] u x by simp
qed

text \<open>
  C8. Claim: every buffer that is its own mirror image about the vertical
  midline has bilateral symmetry \<open>1\<close>. On the code this fails when no pair
  of columns is compared: an image of width 1 is its own mirror image, the
  loop over \<open>x < floor(width / 2)\<close> never runs, and the guard
  \<open>comparisons > 0 ? ... : 0\<close> returns \<open>0\<close>.
\<close>

theorem mirror_single_column_counterexample:
  "mirrored [10, 20, 30, 255] 1 1 \<and> length [10, 20, 30, 255 :: 8 word] = 4 * 1 * 1
   \<and> calculateBilateralSymmetry [10, 20, 30, 255] 1 1 = 0
   \<and> calculateSymmetryPerfect [10, 20, 30, 255] 1 1 = 0"
  by (simp add: mirrored_def rgbSum_def upt_conv_Cons calculateBilateralSymmetry_def calculateSymmetryPerfect_def
      bilateralScan_def forLoop_step forLoop_done symmetryResult_def)

text \<open>
  C8, amended. Every mirrored buffer of \<open>width \<times> height\<close> pixels with
  \<open>width \<ge> 2\<close> and \<open>height \<ge> 1\<close> has bilateral symmetry \<open>1\<close>, in
  both profiles (stride 2 and stride 3).
\<close>

theorem mirror_symmetry_is_one:
  assumes "mirrored pixels w h" and "length pixels = 4 * w * h" and "2 \<le> w" and "1 \<le> h"
  shows "calculateBilateralSymmetry pixels w h = 1 \<and> calculateSymmetryPerfect pixels w h = 1"
  unfolding calculateBilateralSymmetry_def calculateSymmetryPerfect_def
  using mirror_scan_one [OF assms, of 2] mirror_scan_one [OF assms, of 3]
  by (simp add: symmetryResult_one)

theorem mirror_symmetry_is_one_witness:
  "mirrored [10, 20, 30, 255, 30, 20, 10, 255] 2 1
   \<and> length [10, 20, 30, 255, 30, 20, 10, 255 :: 8 word] = 4 * 2 * 1 \<and> (2::nat) \<le> 2 \<and> (1::nat) \<le> 1
   \<and> calculateBilateralSymmetry [10, 20, 30, 255, 30, 20, 10, 255] 2 1 = 1
   \<and> calculateSymmetryPerfect [10, 20, 30, 255, 30, 20, 10, 255] 2 1 = 1"
proof -
  have m: "mirrored [10, 20, 30, 255, 30, 20, 10, 255] 2 1"
    by (simp add: mirrored_def rgbSum_def upt_conv_Cons)
  have l: "length [10, 20, 30, 255, 30, 20, 10, 255 :: 8 word] = 4 * 2 * 1" by simp
  have "calculateBilateralSymmetry [10, 20, 30, 255, 30, 20, 10, 255] 2 1 = 1
     \<and> calculateSymmetryPerfect [10, 20, 30, 255, 30, 20, 10, 255] 2 1 = 1"
    by (rule mirror_symmetry_is_one [OF m l]) simp_all
  then show ?thesis using m l by simp
qed

text \<open>
  C5. For every input of the pathology scorer: every entry of
  \<open>topPathologies\<close> has a score above \<open>0.3\<close>, the list is in descending
  order of score and has at most five entries, and \<open>hasPathology\<close> holds
  exactly when the list is non-empty and the score of its first entry is
  above \<open>0.5\<close>.
\<close>

theorem top_pathologies_filtered_sorted_capped:
  "list_all (\<lambda>e. snd e > 0.3) (topPathologies (detectPathologies pixels w h va))
   \<and> sorted_wrt (\<lambda>a b. snd a \<ge> snd b) (topPathologies (detectPathologies pixels w h va))
   \<and> length (topPathologies (detectPathologies pixels w h va)) \<le> 5
   \<and> (hasPathology (detectPathologies pixels w h va)
        \<longleftrightarrow> topPathologies (detectPathologies pixels w h va) \<noteq> []
            \<and> snd (hd (topPathologies (detectPathologies pixels w h va))) > 0.5)"
proof -
  let ?top = "take 5 (sort_key (\<lambda>(_, s). - s) (filter (\<lambda>(_, s). s > 0.3) (pathologyScores va)))"
  have t: "topPathologies (detectPathologies pixels w h va) = ?top"
    unfolding detectPathologies_def Let_def by (simp only: PathologyDetection.select_convs)
  have h: "hasPathology (detectPathologies pixels w h va) = (length ?top > 0 \<and> snd (?top ! 0) > 0.5)"
    unfolding detectPathologies_def Let_def by (simp only: PathologyDetection.select_convs)
  have a: "list_all (\<lambda>e. snd e > 0.3) ?top" by (rule top_filtered)
  have b: "sorted_wrt (\<lambda>a b. snd a \<ge> snd b) ?top" by (rule top_sorted)
  have c: "length ?top \<le> 5" by simp
  show ?thesis
    unfolding t h first_is_hd [of ?top "\<lambda>e. snd e > 0.5"]
    using a b c by blast
qed

text \<open>
  C1. Claim: when no scoring rule fired (every entry of the modality score
  map is zero) the ensemble classifier selects \<open>unknown\<close>. On the code the
  maximum of the all-zero map is \<open>0\<close>, \<open>find\<close> returns the first entry,
  and the fallback \<open>|| 'unknown'\<close> is never reached: for a single mid-grey
  pixel and the file name \<open>photo.png\<close> every score is zero and the clinical
  classifier selects \<open>chest-xray\<close> with confidence 80; on an all-zero input
  the classifier of the second profile selects \<open>brain-mri\<close>.
\<close>

theorem no_rule_fired_selects_first_modality:
  "c_scores (classifyMedicalImageClinical (clinicalAnalyses greyPixel ''photo.png'' 1 1)) = zeroScores
   \<and> c_type (classifyMedicalImageClinical (clinicalAnalyses greyPixel ''photo.png'' 1 1)) = Known ChestXray
   \<and> c_confidence (classifyMedicalImageClinical (clinicalAnalyses greyPixel ''photo.png'' 1 1)) = 80
   \<and> res_imageType (performClinicalImageAnalysis greyPixel ''photo.png'' 1 1) = Known ChestXray
   \<and> list_all (\<lambda>e. snd e = 0) (pc_scores (classifyMedicalImagePerfect perfectZero))
   \<and> pc_type (classifyMedicalImagePerfect perfectZero) = Known BrainMri"
proof -
  have "pc_scores (classifyMedicalImagePerfect perfectZero) =
      [(BrainMri, 0), (ChestXray, 0), (CtScan, 0), (Ultrasound, 0), (BoneXray, 0),
       (AbdominalCt, 0), (Mammography, 0), (DentalXray, 0), (SpineXray, 0)]"
    by (simp add: classifyMedicalImagePerfect_def perfectScores_def perfectZero_def Let_def
        filenameStepPerfect_def addScore_def)
  moreover have "pc_type (classifyMedicalImagePerfect perfectZero) = Known BrainMri"
    by (simp add: classifyMedicalImagePerfect_def perfectScores_def perfectZero_def Let_def
        filenameStepPerfect_def addScore_def maxOf_def selectType_def)
  moreover have "c_scores (classifyMedicalImageClinical (clinicalAnalyses greyPixel ''photo.png'' 1 1))
        = zeroScores
      \<and> c_type (classifyMedicalImageClinical (clinicalAnalyses greyPixel ''photo.png'' 1 1))
        = Known ChestXray
      \<and> c_confidence (classifyMedicalImageClinical (clinicalAnalyses greyPixel ''photo.png'' 1 1)) = 80
      \<and> res_imageType (performClinicalImageAnalysis greyPixel ''photo.png'' 1 1) = Known ChestXray"
    by (simp add: performClinicalImageAnalysis_def classifyMedicalImageClinical_def Let_def grey_scores
        generateClinicalDiagnosis_def del: One_nat_def)
       (simp add: zeroScores_def maxOf_def selectType_def)
  ultimately show ?thesis by simp
qed

text \<open>
  C3. Claim: with no medical keyword in the file name, \<open>darkRatio\<close> in
  \<open>(0.6, 0.8)\<close>, \<open>contrast > 0.3\<close>, aspect ratio in \<open>(1.2, 1.8)\<close> and
  \<open>edgeDensity > 0.25\<close> the ensemble classifier selects \<open>chest-xray\<close>.
  On the code the chest rule also needs a mean brightness below 80 and a
  contrast above \<open>0.6\<close>. The black and white 7 by 5 image satisfies the
  claim's hypotheses with mean brightness \<open>663 / 7\<close>; the chest rule does not
  fire, the bone rule does (contrast above \<open>0.6\<close>, \<open>brightRatio = 13 / 35\<close>,
  roughness 255), and the classifier selects \<open>bone-xray\<close>.
\<close>

theorem bone_rule_outscores_chest_counterexample:
  "\<not> regexTest chestWords ''photo.png'' \<and> \<not> regexTest brainWords ''photo.png''
   \<and> \<not> regexTest ctWords ''photo.png'' \<and> \<not> regexTest boneWords ''photo.png''
   \<and> js_gt (darkRatio (performAdvancedVisualAnalysis speckledImage 7 5)) 0.6
   \<and> js_lt (darkRatio (performAdvancedVisualAnalysis speckledImage 7 5)) 0.8
   \<and> contrast (performAdvancedVisualAnalysis speckledImage 7 5) > 0.3
   \<and> js_gt (aspectRatio (analyzeAnatomicalStructure speckledImage 7 5)) 1.2
   \<and> js_lt (aspectRatio (analyzeAnatomicalStructure speckledImage 7 5)) 1.8
   \<and> js_gt (edgeDensity (performAdvancedVisualAnalysis speckledImage 7 5)) 0.25
   \<and> c_type (classifyMedicalImageClinical (clinicalAnalyses speckledImage ''photo.png'' 7 5))
       = Known BoneXray
   \<and> c_type (classifyMedicalImageClinical (clinicalAnalyses speckledImage ''photo.png'' 7 5))
       \<noteq> Known ChestXray"
  using speckled_contrast [of 7 5]
  by (simp add: photo_no_keyword speckled_visual speckled_edgeDensity structural_aspect js_div_def
      fl64_values speckled_type)

text \<open>
  C3, amended. With the claim's hypotheses and, in addition, a mean
  brightness below 80 and a contrast above \<open>0.6\<close> (the conditions of the
  chest rule), the ensemble classifier selects \<open>chest-xray\<close>, and so does
  the final result.
\<close>

theorem chest_rule_selects_chest_xray:
  assumes "\<not> regexTest chestWords name" and "\<not> regexTest brainWords name"
    and "\<not> regexTest ctWords name" and "\<not> regexTest boneWords name"
    and "js_gt (darkRatio (performAdvancedVisualAnalysis pixels w h)) 0.6"
    and "js_lt (darkRatio (performAdvancedVisualAnalysis pixels w h)) 0.8"
    and "contrast (performAdvancedVisualAnalysis pixels w h) > 0.3"
    and "js_gt (aspectRatio (analyzeAnatomicalStructure pixels w h)) 1.2"
    and "js_lt (aspectRatio (analyzeAnatomicalStructure pixels w h)) 1.8"
    and "js_gt (edgeDensity (performAdvancedVisualAnalysis pixels w h)) 0.25"
    and "js_lt (brightness (performAdvancedVisualAnalysis pixels w h)) 80"
    and "contrast (performAdvancedVisualAnalysis pixels w h) > 0.6"
  shows "c_type (classifyMedicalImageClinical (clinicalAnalyses pixels name w h)) = Known ChestXray
       \<and> res_imageType (performClinicalImageAnalysis pixels name w h) = Known ChestXray"
proof -
  have t: "c_type (classifyMedicalImageClinical (clinicalAnalyses pixels name w h)) = Known ChestXray"
    unfolding classifyMedicalImageClinical_def Let_def scores_under_hypotheses [OF assms(1-10)]
    using assms(11,12) by (simp add: maxOf_def selectType_def)
  then show ?thesis
    by (simp add: performClinicalImageAnalysis_def Let_def generateClinicalDiagnosis_def)
qed

theorem chest_rule_selects_chest_xray_witness:
  "\<not> regexTest chestWords ''photo.png'' \<and> \<not> regexTest brainWords ''photo.png''
   \<and> \<not> regexTest ctWords ''photo.png'' \<and> \<not> regexTest boneWords ''photo.png''
   \<and> js_gt (darkRatio (performAdvancedVisualAnalysis darkImage 3 2)) 0.6
   \<and> js_lt (darkRatio (performAdvancedVisualAnalysis darkImage 3 2)) 0.8
   \<and> contrast (performAdvancedVisualAnalysis darkImage 3 2) > 0.3
   \<and> js_gt (aspectRatio (analyzeAnatomicalStructure darkImage 3 2)) 1.2
   \<and> js_lt (aspectRatio (analyzeAnatomicalStructure darkImage 3 2)) 1.8
   \<and> js_gt (edgeDensity (performAdvancedVisualAnalysis darkImage 3 2)) 0.25
   \<and> js_lt (brightness (performAdvancedVisualAnalysis darkImage 3 2)) 80
   \<and> contrast (performAdvancedVisualAnalysis darkImage 3 2) > 0.6
   \<and> c_type (classifyMedicalImageClinical (clinicalAnalyses darkImage ''photo.png'' 3 2))
       = Known ChestXray
   \<and> res_imageType (performClinicalImageAnalysis darkImage ''photo.png'' 3 2) = Known ChestXray"
proof -
  have c: "contrast (performAdvancedVisualAnalysis darkImage 3 2) > 0.3"
    "contrast (performAdvancedVisualAnalysis darkImage 3 2) > 0.6"
    using dark_contrast [of 3 2] by simp_all
  have v: "js_gt (darkRatio (performAdvancedVisualAnalysis darkImage 3 2)) 0.6"
    "js_lt (darkRatio (performAdvancedVisualAnalysis darkImage 3 2)) 0.8"
    "js_gt (edgeDensity (performAdvancedVisualAnalysis darkImage 3 2)) 0.25"
    "js_lt (brightness (performAdvancedVisualAnalysis darkImage 3 2)) 80"
    by (simp_all add: dark_visual dark_edgeDensity fl64_values)
  have a: "js_gt (aspectRatio (analyzeAnatomicalStructure darkImage 3 2)) 1.2"
    "js_lt (aspectRatio (analyzeAnatomicalStructure darkImage 3 2)) 1.8"
    by (simp_all add: structural_aspect js_div_def fl64_values)
  show ?thesis
    using chest_rule_selects_chest_xray [OF photo_no_keyword v(1,2) c(1) a v(3,4) c(2)] photo_no_keyword v c a
    by simp
qed

text \<open>
  C9. In the clinical profile the image type of the final result is
  \<open>chest-xray\<close>, \<open>brain-mri\<close> or \<open>unknown\<close>: whenever the classifier
  selected another modality, the default branch of the diagnosis generator
  sets the image type to \<open>unknown\<close>.
\<close>

theorem clinical_image_type_three_values:
  "res_imageType (generateClinicalDiagnosis c name) \<in> {Known ChestXray, Known BrainMri, Unknown}
   \<and> (c_type c \<notin> {Known ChestXray, Known BrainMri}
        \<longrightarrow> res_imageType (generateClinicalDiagnosis c name) = Unknown)
   \<and> res_imageType (performClinicalImageAnalysis pixels name w h)
        \<in> {Known ChestXray, Known BrainMri, Unknown}"
proof -
  have g: "res_imageType (generateClinicalDiagnosis d n) =
      (if c_type d = Known ChestXray \<or> c_type d = Known BrainMri then c_type d else Unknown)" for d n
    by (simp add: generateClinicalDiagnosis_def Let_def split: imageType.splits modality.splits)
  show ?thesis unfolding performClinicalImageAnalysis_def Let_def g by auto
qed

theorem clinical_image_type_three_values_witness:
  "c_type (classifyMedicalImageClinical (clinicalAnalyses speckledImage ''photo.png'' 7 5))
     \<notin> {Known ChestXray, Known BrainMri}
   \<and> res_imageType (generateClinicalDiagnosis
         (classifyMedicalImageClinical (clinicalAnalyses speckledImage ''photo.png'' 7 5)) ''photo.png'')
       = Unknown"
  using clinical_image_type_three_values [of "classifyMedicalImageClinical (clinicalAnalyses speckledImage ''photo.png'' 7 5)"
      "''photo.png''" speckledImage 7 5]
  by (simp add: speckled_type)

text \<open>
  C10. For every buffer whose visual features have \<open>darkRatio\<close> in
  \<open>(0.6, 0.8)\<close> and \<open>contrast > 0.3\<close>, the pathology scorer gives
  \<open>normal\<close> the score \<open>0.9\<close>; \<open>normal\<close> is in \<open>topPathologies\<close>, it is
  its first entry (no rule assigns a higher score), and \<open>hasPathology\<close> is
  true.
\<close>

theorem normal_scored_as_top_pathology:
  assumes "js_gt (darkRatio (performAdvancedVisualAnalysis pixels w h)) 0.6"
    and "js_lt (darkRatio (performAdvancedVisualAnalysis pixels w h)) 0.8"
    and "contrast (performAdvancedVisualAnalysis pixels w h) > 0.3"
  shows "map_of (pathologies (detectPathologies pixels w h (performAdvancedVisualAnalysis pixels w h)))
           Normal = Some 0.9
       \<and> (Normal, 0.9) \<in> set (topPathologies
             (detectPathologies pixels w h (performAdvancedVisualAnalysis pixels w h)))
       \<and> hd (topPathologies (detectPathologies pixels w h (performAdvancedVisualAnalysis pixels w h)))
           = (Normal, 0.9)
       \<and> hasPathology (detectPathologies pixels w h (performAdvancedVisualAnalysis pixels w h))"
proof -
  obtain rest where
    "topPathologies (detectPathologies pixels w h (performAdvancedVisualAnalysis pixels w h))
       = (Normal, 0.9) # rest"
    using normal_top(2) [OF assms] by blast
  then show ?thesis using normal_top(1,3) [OF assms] by simp
qed

theorem normal_scored_as_top_pathology_witness:
  "js_gt (darkRatio (performAdvancedVisualAnalysis darkImage 3 2)) 0.6
   \<and> js_lt (darkRatio (performAdvancedVisualAnalysis darkImage 3 2)) 0.8
   \<and> contrast (performAdvancedVisualAnalysis darkImage 3 2) > 0.3
   \<and> map_of (pathologies (detectPathologies darkImage 3 2 (performAdvancedVisualAnalysis darkImage 3 2)))
           Normal = Some 0.9
   \<and> hd (topPathologies (detectPathologies darkImage 3 2 (performAdvancedVisualAnalysis darkImage 3 2)))
           = (Normal, 0.9)
   \<and> hasPathology (detectPathologies darkImage 3 2 (performAdvancedVisualAnalysis darkImage 3 2))"
proof -
  have c: "contrast (performAdvancedVisualAnalysis darkImage 3 2) > 0.3"
    using dark_contrast [of 3 2] by simp
  have v: "js_gt (darkRatio (performAdvancedVisualAnalysis darkImage 3 2)) 0.6"
    "js_lt (darkRatio (performAdvancedVisualAnalysis darkImage 3 2)) 0.8"
    by (simp_all add: dark_visual fl64_values)
  show ?thesis using normal_scored_as_top_pathology [OF v c] v c by simp
qed

end
